theory Spec2Isabelle
  imports Main
begin

section \<open>Python values, exceptions and sequencing\<close>

text \<open>
  The cells of the report and the values of the record fields are Python objects of three
  kinds: \<open>None\<close>, \<open>str\<close> and \<open>int\<close>. An attribute or element text that the XML library
  reports as \<open>None\<close> is \<open>None :: string option\<close>.
\<close>

datatype pyval = PNone | PStr string | PInt int

fun opt_val :: "string option \<Rightarrow> pyval" where
  "opt_val None = PNone"
| "opt_val (Some s) = PStr s"

text \<open>
  Every way in which the program stops without returning. The first three are the
  \<open>print(...); sys.exit(1)\<close> exits of \<open>parse_nessus_xml\<close>; the others are Python
  exceptions that no \<open>try\<close> of the program catches, so they end the run with a traceback.
  \<open>KeyError\<close> carries the missing key, \<open>ValueError\<close> the rejected text, \<open>SyntaxError\<close> the
  namespace prefix that could not be resolved.
\<close>

datatype error =
    FileNotFound string
  | XMLParseError
  | NoReportTag
  | TypeError
  | ValueError string
  | KeyError pyval
  | SyntaxError string
  | AttributeError

definition bind_result :: "error + 'a \<Rightarrow> ('a \<Rightarrow> error + 'b) \<Rightarrow> error + 'b" where
  "bind_result r f = (case r of Inl e \<Rightarrow> Inl e | Inr x \<Rightarrow> f x)"


section \<open>The builtin \<open>int\<close> on a string\<close>

text \<open>
  \<open>int(s)\<close> for a \<open>str\<close> in base 10, on ASCII text: surrounding whitespace is stripped,
  one sign may precede the digits, and single underscores may stand between digits.
  Anything else raises \<open>ValueError\<close>, here \<open>None\<close>. Bytes outside ASCII are not digits
  and not whitespace in this model.
\<close>

definition py_isspace :: "char \<Rightarrow> bool" where
  "py_isspace c \<longleftrightarrow> (of_char c :: nat) \<in> {9, 10, 11, 12, 13, 32}"

definition strip :: "string \<Rightarrow> string" where
  "strip s = rev (dropWhile py_isspace (rev (dropWhile py_isspace s)))"

definition digit_of :: "char \<Rightarrow> nat option" where
  "digit_of c = (let n = (of_char c :: nat) in if 48 \<le> n \<and> n \<le> 57 then Some (n - 48) else None)"

fun py_digits :: "nat \<Rightarrow> string \<Rightarrow> nat option" where
  "py_digits acc [] = Some acc"
| "py_digits acc [c] = (case digit_of c of None \<Rightarrow> None | Some d \<Rightarrow> Some (10 * acc + d))"
| "py_digits acc (c # c' # cs) =
     (if c = CHR ''_'' then
        (case digit_of c' of None \<Rightarrow> None | Some d \<Rightarrow> py_digits (10 * acc + d) cs)
      else
        (case digit_of c of None \<Rightarrow> None | Some d \<Rightarrow> py_digits (10 * acc + d) (c' # cs)))"

definition py_unsigned :: "string \<Rightarrow> nat option" where
  "py_unsigned s =
     (case s of
        [] \<Rightarrow> None
      | c # cs \<Rightarrow> (case digit_of c of None \<Rightarrow> None | Some d \<Rightarrow> py_digits d cs))"

definition py_int :: "string \<Rightarrow> int option" where
  "py_int s =
     (case strip s of
        [] \<Rightarrow> None
      | c # cs \<Rightarrow>
          if c = CHR ''-'' then map_option (\<lambda>n. - int n) (py_unsigned cs)
          else if c = CHR ''+'' then map_option int (py_unsigned cs)
          else map_option int (py_unsigned (c # cs)))"

text \<open>
  \<open>int(item.attrib.get('severity'))\<close>: \<open>int(None)\<close> raises \<open>TypeError\<close>, a string that is
  not a decimal integer raises \<open>ValueError\<close>.
\<close>

definition int_of_attr :: "string option \<Rightarrow> error + int" where
  "int_of_attr a =
     (case a of
        None \<Rightarrow> Inl TypeError
      | Some s \<Rightarrow> (case py_int s of None \<Rightarrow> Inl (ValueError s) | Some n \<Rightarrow> Inr n))"


section \<open>The parsed document\<close>

text \<open>
  An element of the tree that \<open>etree.parse\<close> returns: its tag, its attributes, its text
  (\<open>None\<close> when the element has none) and its child elements in document order.
\<close>

datatype element =
  Element (el_tag: string) (el_attrib: "(string \<times> string) list")
          (el_text: "string option") (el_children: "element list")

definition attrib_get :: "element \<Rightarrow> string \<Rightarrow> string option" where
  "attrib_get e k = map_of (el_attrib e) k"

text \<open>
  \<open>find\<close> and \<open>findall\<close> with a path that is one plain tag name: the first child, and all
  children, with that tag. The program calls them with \<open>Report\<close>, \<open>ReportHost\<close>,
  \<open>HostProperties\<close>, \<open>tag\<close> and \<open>ReportItem\<close> only.
\<close>

definition find_child :: "string \<Rightarrow> element \<Rightarrow> element option" where
  "find_child name e = List.find (\<lambda>c. el_tag c = name) (el_children e)"

definition findall :: "string \<Rightarrow> element \<Rightarrow> element list" where
  "findall name e = filter (\<lambda>c. el_tag c = name) (el_children e)"

text \<open>
  \<open>findtext(path)\<close> with a path that is one name. The path compiler of the XML library
  (\<open>xpath_tokenizer\<close> in \<open>_elementpath\<close>, the same in \<open>xml.etree.ElementPath\<close>) splits a
  name with a colon into prefix and local name and looks the prefix up in the
  \<open>namespaces\<close> argument; when no \<open>namespaces\<close> mapping is passed it raises
  \<open>SyntaxError("prefix 'cm' not found in prefix map")\<close>. The program passes none.
  For a plain name the result is the text of the first child with that tag, the empty
  string when that child has no text, and \<open>None\<close> when there is no such child.
\<close>

definition path_prefix :: "string \<Rightarrow> string option" where
  "path_prefix path =
     (if CHR '':'' \<in> set path then Some (takeWhile (\<lambda>c. c \<noteq> CHR '':'') path) else None)"

definition find_text :: "string \<Rightarrow> element \<Rightarrow> string option" where
  "find_text name e =
     (case find_child name e of
        None \<Rightarrow> None
      | Some c \<Rightarrow> (case el_text c of None \<Rightarrow> Some [] | Some t \<Rightarrow> Some t))"

definition findtext :: "string \<Rightarrow> element \<Rightarrow> error + string option" where
  "findtext path e =
     (case path_prefix path of
        Some p \<Rightarrow> Inl (SyntaxError p)
      | None \<Rightarrow> Inr (find_text path e))"

text \<open>What \<open>os.path.exists\<close> and \<open>etree.parse\<close> find at a path.\<close>

datatype file_content = Missing | Unparsable | Document element


section \<open>Severity taxonomy\<close>

definition SEVERITY_MAP :: "(int \<times> string) list" where
  "SEVERITY_MAP = [(0, ''Info''), (1, ''Low''), (2, ''Medium''), (3, ''High''), (4, ''Critical'')]"

definition COLORS :: "(string \<times> string) list" where
  "COLORS = [(''Critical'', ''#D20F0F''), (''High'', ''#FF8000''), (''Medium'', ''#FFCC00''),
             (''Low'', ''#00CC00''), (''Info'', ''#0000FF'')]"

text \<open>\<open>SEVERITY_MAP.get(severity, 'Unknown')\<close>\<close>

definition severity_label :: "int \<Rightarrow> string" where
  "severity_label severity =
     (case map_of SEVERITY_MAP severity of None \<Rightarrow> ''Unknown'' | Some l \<Rightarrow> l)"


section \<open>The three record collections\<close>

record host_record =
  h_IP_Address :: "string option"
  h_FQDN :: "string option"
  h_Operating_System :: "string option"
  h_Critical :: int
  h_High :: int
  h_Medium :: int
  h_Low :: int
  h_Info :: int
  h_Total :: int

record vuln_record =
  v_File :: string
  v_IP_Address :: "string option"
  v_FQDN :: "string option"
  v_Port :: "string option"
  v_Protocol :: "string option"
  v_Service :: "string option"
  v_Plugin_ID :: "string option"
  v_Plugin_Name :: "string option"
  v_Plugin_Family :: "string option"
  v_Severity :: int
  v_Severity_Label :: string
  v_CVSS_Base_Score :: "string option"
  v_CVSS_Vector :: "string option"
  v_Description :: "string option"
  v_Solution :: "string option"
  v_Synopsis :: "string option"
  v_Exploitability_Ease :: "string option"

record compliance_record =
  c_File :: string
  c_IP_Address :: "string option"
  c_FQDN :: "string option"
  c_Plugin_ID :: "string option"
  c_Severity :: int
  c_Plugin_Name :: "string option"
  c_Audit_File :: "string option"
  c_Check_Name :: "string option"
  c_Result :: "string option"
  c_Actual_Value :: "string option"
  c_Policy_Value :: "string option"
  c_Info :: "string option"
  c_Solution :: "string option"
  c_See_Also :: "string option"


section \<open>The extractor: \<open>parse_nessus_xml\<close>\<close>

text \<open>
  A dict whose values are counters, in insertion order: \<open>host_vuln_counts\<close> with the
  five keys 0..4, and \<open>severity_counts\<close> of the chart with the five labels.
  \<open>d[k] += 1\<close> and \<open>d[k]\<close> raise \<open>KeyError\<close> on a key that is not in the dict.
\<close>

type_synonym counts = "(pyval \<times> int) list"

definition counts_init :: counts where
  "counts_init = [(PInt 0, 0), (PInt 1, 0), (PInt 2, 0), (PInt 3, 0), (PInt 4, 0)]"

definition counts_get :: "counts \<Rightarrow> pyval \<Rightarrow> error + int" where
  "counts_get d k = (case map_of d k of None \<Rightarrow> Inl (KeyError k) | Some v \<Rightarrow> Inr v)"

definition counts_incr :: "counts \<Rightarrow> pyval \<Rightarrow> error + counts" where
  "counts_incr d k =
     (case map_of d k of
        None \<Rightarrow> Inl (KeyError k)
      | Some v \<Rightarrow> Inr (map (\<lambda>(k', v'). if k' = k then (k', v' + 1) else (k', v')) d))"

text \<open>Lines 56-64: the property dict of a host and the three identity fields.\<close>

definition host_props_of :: "element \<Rightarrow> (string option \<rightharpoonup> string option)" where
  "host_props_of report_host =
     (case find_child ''HostProperties'' report_host of
        None \<Rightarrow> Map.empty
      | Some host_properties \<Rightarrow>
          foldl (\<lambda>host_props t. host_props(attrib_get t ''name'' \<mapsto> el_text t))
                Map.empty (findall ''tag'' host_properties))"

definition props_get :: "(string option \<rightharpoonup> string option) \<Rightarrow> string \<Rightarrow> string \<Rightarrow> string option" where
  "props_get host_props k dflt = (case host_props (Some k) of None \<Rightarrow> Some dflt | Some v \<Rightarrow> v)"

text \<open>Lines 80-95: the compliance dict, its entries evaluated in the order written.\<close>

definition compliance_dict ::
  "string \<Rightarrow> string option \<Rightarrow> string option \<Rightarrow> string option \<Rightarrow> int \<Rightarrow> string option
     \<Rightarrow> element \<Rightarrow> error + compliance_record" where
  "compliance_dict file_path ip fqdn plugin_id severity plugin_name item =
     bind_result (findtext ''cm:compliance-audit-file'' item) (\<lambda>audit_file.
     bind_result (findtext ''cm:compliance-check-name'' item) (\<lambda>check_name.
     bind_result (findtext ''cm:compliance-result'' item) (\<lambda>result.
     bind_result (findtext ''cm:compliance-actual-value'' item) (\<lambda>actual_value.
     bind_result (findtext ''cm:compliance-policy-value'' item) (\<lambda>policy_value.
     bind_result (findtext ''cm:compliance-info'' item) (\<lambda>info.
     bind_result (findtext ''cm:compliance-solution'' item) (\<lambda>solution.
     bind_result (findtext ''cm:compliance-see-also'' item) (\<lambda>see_also.
       Inr \<lparr> c_File = file_path, c_IP_Address = ip, c_FQDN = fqdn, c_Plugin_ID = plugin_id,
             c_Severity = severity, c_Plugin_Name = plugin_name, c_Audit_File = audit_file,
             c_Check_Name = check_name, c_Result = result, c_Actual_Value = actual_value,
             c_Policy_Value = policy_value, c_Info = info, c_Solution = solution,
             c_See_Also = see_also \<rparr>))))))))"

text \<open>Lines 70-129: the body of the loop over the \<open>ReportItem\<close> children of one host.\<close>

definition report_item ::
  "string \<Rightarrow> string option \<Rightarrow> string option \<Rightarrow> element
     \<Rightarrow> counts \<times> vuln_record list \<times> compliance_record list
     \<Rightarrow> error + (counts \<times> vuln_record list \<times> compliance_record list)" where
  "report_item file_path ip fqdn item st =
     (case st of (host_vuln_counts, vulnerabilities, compliance_items) \<Rightarrow>
        let plugin_id = attrib_get item ''pluginID'';
            plugin_name = attrib_get item ''pluginName'';
            plugin_family = attrib_get item ''pluginFamily''
        in
        bind_result (int_of_attr (attrib_get item ''severity'')) (\<lambda>severity.
          let port = attrib_get item ''port'';
              protocol = attrib_get item ''protocol'';
              svc_name = attrib_get item ''svc_name''
          in
          if plugin_family = Some ''Policy Compliance'' then
            bind_result
              (compliance_dict file_path ip fqdn plugin_id severity plugin_name item)
              (\<lambda>c. Inr (host_vuln_counts, vulnerabilities, compliance_items @ [c]))
          else
            bind_result (counts_incr host_vuln_counts (PInt severity)) (\<lambda>host_vuln_counts'.
            bind_result (findtext ''description'' item) (\<lambda>description.
            bind_result (findtext ''solution'' item) (\<lambda>solution.
            bind_result (findtext ''synopsis'' item) (\<lambda>synopsis.
            bind_result (findtext ''cvss_base_score'' item) (\<lambda>cvss_base.
            bind_result (findtext ''cvss_vector'' item) (\<lambda>cvss_vector.
            bind_result (findtext ''exploitability_ease'' item) (\<lambda>exploit_ease.
              Inr (host_vuln_counts',
                   vulnerabilities @
                     [\<lparr> v_File = file_path, v_IP_Address = ip, v_FQDN = fqdn, v_Port = port,
                        v_Protocol = protocol, v_Service = svc_name, v_Plugin_ID = plugin_id,
                        v_Plugin_Name = plugin_name, v_Plugin_Family = plugin_family,
                        v_Severity = severity, v_Severity_Label = severity_label severity,
                        v_CVSS_Base_Score = cvss_base, v_CVSS_Vector = cvss_vector,
                        v_Description = description, v_Solution = solution,
                        v_Synopsis = synopsis, v_Exploitability_Ease = exploit_ease \<rparr>],
                   compliance_items))))))))))"

fun report_items ::
  "string \<Rightarrow> string option \<Rightarrow> string option \<Rightarrow> element list
     \<Rightarrow> counts \<times> vuln_record list \<times> compliance_record list
     \<Rightarrow> error + (counts \<times> vuln_record list \<times> compliance_record list)" where
  "report_items file_path ip fqdn [] st = Inr st"
| "report_items file_path ip fqdn (item # items) st =
     bind_result (report_item file_path ip fqdn item st) (report_items file_path ip fqdn items)"

text \<open>Lines 56-141: the body of the loop over the \<open>ReportHost\<close> children of the report.\<close>

definition report_host ::
  "string \<Rightarrow> element
     \<Rightarrow> host_record list \<times> vuln_record list \<times> compliance_record list
     \<Rightarrow> error + (host_record list \<times> vuln_record list \<times> compliance_record list)" where
  "report_host file_path rh st =
     (case st of (hosts_data, vulnerabilities, compliance_items) \<Rightarrow>
        let host_props = host_props_of rh;
            ip = props_get host_props ''host-ip'' ''N/A'';
            fqdn = props_get host_props ''host-fqdn'' ''N/A'';
            os_name = props_get host_props ''operating-system'' ''N/A''
        in
        bind_result
          (report_items file_path ip fqdn (findall ''ReportItem'' rh)
             (counts_init, vulnerabilities, compliance_items))
          (\<lambda>(host_vuln_counts, vulnerabilities', compliance_items').
            bind_result (counts_get host_vuln_counts (PInt 4)) (\<lambda>critical.
            bind_result (counts_get host_vuln_counts (PInt 3)) (\<lambda>high.
            bind_result (counts_get host_vuln_counts (PInt 2)) (\<lambda>medium.
            bind_result (counts_get host_vuln_counts (PInt 1)) (\<lambda>low.
            bind_result (counts_get host_vuln_counts (PInt 0)) (\<lambda>info.
              Inr (hosts_data @
                     [\<lparr> h_IP_Address = ip, h_FQDN = fqdn, h_Operating_System = os_name,
                        h_Critical = critical, h_High = high, h_Medium = medium, h_Low = low,
                        h_Info = info, h_Total = sum_list (map snd host_vuln_counts) \<rparr>],
                   vulnerabilities', compliance_items'))))))))"

fun report_hosts ::
  "string \<Rightarrow> element list
     \<Rightarrow> host_record list \<times> vuln_record list \<times> compliance_record list
     \<Rightarrow> error + (host_record list \<times> vuln_record list \<times> compliance_record list)" where
  "report_hosts file_path [] st = Inr st"
| "report_hosts file_path (rh # rhs) st =
     bind_result (report_host file_path rh st) (report_hosts file_path rhs)"

definition parse_nessus_xml ::
  "(string \<Rightarrow> file_content) \<Rightarrow> string
     \<Rightarrow> error + (host_record list \<times> vuln_record list \<times> compliance_record list)" where
  "parse_nessus_xml files file_path =
     (case files file_path of
        Missing \<Rightarrow> Inl (FileNotFound file_path)
      | Unparsable \<Rightarrow> Inl XMLParseError
      | Document root \<Rightarrow>
          (case find_child ''Report'' root of
             None \<Rightarrow> Inl NoReportTag
           | Some report \<Rightarrow> report_hosts file_path (findall ''ReportHost'' report) ([], [], [])))"


section \<open>Data frames and worksheets\<close>

text \<open>
  A \<open>pandas.DataFrame\<close> as the program uses it: named columns and rows of cells.
  \<open>pd.DataFrame(dicts)\<close> is built from a list of dicts that all come from the same dict
  literal, so the columns are the keys of the first dict in the order written.
\<close>

record dataframe =
  df_columns :: "string list"
  df_rows :: "pyval list list"

definition DataFrame :: "(string \<times> pyval) list list \<Rightarrow> dataframe" where
  "DataFrame dicts =
     (case dicts of
        [] \<Rightarrow> \<lparr> df_columns = [], df_rows = [] \<rparr>
      | d # _ \<Rightarrow>
          \<lparr> df_columns = map fst d,
            df_rows = map (\<lambda>d'. map (\<lambda>c. case map_of d' c of None \<Rightarrow> PNone | Some v \<Rightarrow> v)
                                      (map fst d)) dicts \<rparr>)"

definition row_get :: "string list \<Rightarrow> pyval list \<Rightarrow> string \<Rightarrow> pyval" where
  "row_get cols row c = (case map_of (zip cols row) c of None \<Rightarrow> PNone | Some v \<Rightarrow> v)"

text \<open>\<open>df[cols]\<close>: the named columns in the order asked; \<open>KeyError\<close> on an unknown name.\<close>

definition df_select :: "dataframe \<Rightarrow> string list \<Rightarrow> error + dataframe" where
  "df_select df cols =
     (case List.find (\<lambda>c. c \<notin> set (df_columns df)) cols of
        Some c \<Rightarrow> Inl (KeyError (PStr c))
      | None \<Rightarrow>
          Inr \<lparr> df_columns = cols,
                df_rows = map (\<lambda>row. map (row_get (df_columns df) row) cols) (df_rows df) \<rparr>)"

text \<open>\<open>df[df[col] == v]\<close>: the rows whose cell in that column equals \<open>v\<close>, in order.\<close>

definition df_where_eq :: "dataframe \<Rightarrow> string \<Rightarrow> pyval \<Rightarrow> error + dataframe" where
  "df_where_eq df col v =
     (if col \<in> set (df_columns df)
      then Inr \<lparr> df_columns = df_columns df,
                 df_rows = filter (\<lambda>row. row_get (df_columns df) row col = v) (df_rows df) \<rparr>
      else Inl (KeyError (PStr col)))"

definition df_empty :: "dataframe \<Rightarrow> bool" where
  "df_empty df \<longleftrightarrow> df_columns df = [] \<or> df_rows df = []"

text \<open>
  A chart with its one series, and a worksheet: its name, the cells written (zero-based
  row and column, in the order written), the tab colour, the column widths set and the
  charts inserted. Cell formats are not modelled.
\<close>

record chart =
  ch_type :: string
  ch_name :: string
  ch_categories :: string
  ch_values :: string
  ch_points :: "string list"
  ch_title :: string
  ch_style :: nat

record worksheet =
  ws_name :: string
  ws_cells :: "((nat \<times> nat) \<times> pyval) list"
  ws_tab_color :: "string option"
  ws_column_widths :: "(string \<times> nat) list"
  ws_charts :: "(string \<times> chart) list"

text \<open>
  \<open>df.to_excel(writer, sheet_name=..., index=False, startrow=...)\<close>: a new sheet with the
  column names in row \<open>startrow\<close> and the rows below it, no index column.
\<close>

definition table_cells :: "nat \<Rightarrow> pyval list list \<Rightarrow> ((nat \<times> nat) \<times> pyval) list" where
  "table_cells startrow rows =
     concat (map (\<lambda>(i, row). map (\<lambda>(j, v). ((i, j), v)) (enumerate 0 row))
                 (enumerate startrow rows))"

definition to_excel :: "dataframe \<Rightarrow> string \<Rightarrow> nat \<Rightarrow> worksheet" where
  "to_excel df sheet_name startrow =
     \<lparr> ws_name = sheet_name,
       ws_cells = table_cells startrow (map PStr (df_columns df) # df_rows df),
       ws_tab_color = None, ws_column_widths = [], ws_charts = [] \<rparr>"

text \<open>
  A1 notation. \<open>xl_cell_to_rowcol\<close> reads an optional \<open>$\<close>, one to three capital letters, an
  optional \<open>$\<close> and a row number, and returns the zero-based row and column.
  \<open>range_cells\<close> reads a reference \<open>=Sheet!$A$1:$B$2\<close> as Excel does: the sheet and the cells
  of the rectangle, row by row.
\<close>

definition is_upper :: "char \<Rightarrow> bool" where
  "is_upper c \<longleftrightarrow> 65 \<le> (of_char c :: nat) \<and> (of_char c :: nat) \<le> 90"

definition xl_cell_to_rowcol :: "string \<Rightarrow> (nat \<times> nat) option" where
  "xl_cell_to_rowcol cell_str =
     (let s1 = (case cell_str of c # cs \<Rightarrow> if c = CHR ''$'' then cs else c # cs | [] \<Rightarrow> []);
          letters = takeWhile is_upper s1;
          s2 = dropWhile is_upper s1;
          digits = (case s2 of c # cs \<Rightarrow> if c = CHR ''$'' then cs else c # cs | [] \<Rightarrow> [])
      in if letters = [] \<or> 3 < length letters then None
         else (case py_unsigned digits of
                 None \<Rightarrow> None
               | Some n \<Rightarrow>
                   if CHR ''_'' \<in> set digits \<or> n = 0 then None
                   else Some (n - 1,
                              foldl (\<lambda>acc c. 26 * acc + ((of_char c :: nat) - 64)) 0 letters - 1)))"

definition range_cells :: "string \<Rightarrow> (string \<times> (nat \<times> nat) list) option" where
  "range_cells ref =
     (case ref of
        [] \<Rightarrow> None
      | c # rest \<Rightarrow>
          if c \<noteq> CHR ''='' \<or> CHR ''!'' \<notin> set rest then None
          else
            let sheet = takeWhile (\<lambda>x. x \<noteq> CHR ''!'') rest;
                area = drop 1 (dropWhile (\<lambda>x. x \<noteq> CHR ''!'') rest);
                first = takeWhile (\<lambda>x. x \<noteq> CHR '':'') area;
                last = drop 1 (dropWhile (\<lambda>x. x \<noteq> CHR '':'') area)
            in (case (xl_cell_to_rowcol first, xl_cell_to_rowcol last) of
                  (Some (r1, c1), Some (r2, c2)) \<Rightarrow>
                    Some (sheet, concat (map (\<lambda>r. map (\<lambda>c. (r, c)) [c1..<Suc c2]) [r1..<Suc r2]))
                | _ \<Rightarrow> None))"

definition ws_write :: "worksheet \<Rightarrow> nat \<Rightarrow> nat \<Rightarrow> pyval \<Rightarrow> worksheet" where
  "ws_write ws row col v = ws\<lparr> ws_cells := ws_cells ws @ [((row, col), v)] \<rparr>"

definition ws_write_a1 :: "worksheet \<Rightarrow> string \<Rightarrow> pyval \<Rightarrow> error + worksheet" where
  "ws_write_a1 ws cell_str v =
     (case xl_cell_to_rowcol cell_str of
        None \<Rightarrow> Inl AttributeError
      | Some (row, col) \<Rightarrow> Inr (ws_write ws row col v))"


section \<open>The composer: \<open>create_dashboard_chart\<close> and \<open>write_excel\<close>\<close>

text \<open>The three kinds of dict as lists of items, in the order of their dict literals.\<close>

definition host_items :: "host_record \<Rightarrow> (string \<times> pyval) list" where
  "host_items h =
     [(''IP Address'', opt_val (h_IP_Address h)), (''FQDN'', opt_val (h_FQDN h)),
      (''Operating System'', opt_val (h_Operating_System h)),
      (''Critical'', PInt (h_Critical h)), (''High'', PInt (h_High h)),
      (''Medium'', PInt (h_Medium h)), (''Low'', PInt (h_Low h)),
      (''Info'', PInt (h_Info h)), (''Total'', PInt (h_Total h))]"

definition vuln_items :: "vuln_record \<Rightarrow> (string \<times> pyval) list" where
  "vuln_items v =
     [(''File'', PStr (v_File v)), (''IP Address'', opt_val (v_IP_Address v)),
      (''FQDN'', opt_val (v_FQDN v)), (''Port'', opt_val (v_Port v)),
      (''Protocol'', opt_val (v_Protocol v)), (''Service'', opt_val (v_Service v)),
      (''Plugin ID'', opt_val (v_Plugin_ID v)), (''Plugin Name'', opt_val (v_Plugin_Name v)),
      (''Plugin Family'', opt_val (v_Plugin_Family v)), (''Severity'', PInt (v_Severity v)),
      (''Severity Label'', PStr (v_Severity_Label v)),
      (''CVSS Base Score'', opt_val (v_CVSS_Base_Score v)),
      (''CVSS Vector'', opt_val (v_CVSS_Vector v)),
      (''Description'', opt_val (v_Description v)), (''Solution'', opt_val (v_Solution v)),
      (''Synopsis'', opt_val (v_Synopsis v)),
      (''Exploitability Ease'', opt_val (v_Exploitability_Ease v))]"

definition compliance_items_of :: "compliance_record \<Rightarrow> (string \<times> pyval) list" where
  "compliance_items_of c =
     [(''File'', PStr (c_File c)), (''IP Address'', opt_val (c_IP_Address c)),
      (''FQDN'', opt_val (c_FQDN c)), (''Plugin ID'', opt_val (c_Plugin_ID c)),
      (''Severity'', PInt (c_Severity c)), (''Plugin Name'', opt_val (c_Plugin_Name c)),
      (''Audit File'', opt_val (c_Audit_File c)), (''Check Name'', opt_val (c_Check_Name c)),
      (''Result'', opt_val (c_Result c)), (''Actual Value'', opt_val (c_Actual_Value c)),
      (''Policy Value'', opt_val (c_Policy_Value c)), (''Info'', opt_val (c_Info c)),
      (''Solution'', opt_val (c_Solution c)), (''See Also'', opt_val (c_See_Also c))]"

text \<open>\<open>SEVERITY_MAP[k]\<close> and \<open>COLORS[k]\<close>, which raise \<open>KeyError\<close> on a missing key.\<close>

definition severity_map_item :: "int \<Rightarrow> error + string" where
  "severity_map_item k =
     (case map_of SEVERITY_MAP k of None \<Rightarrow> Inl (KeyError (PInt k)) | Some l \<Rightarrow> Inr l)"

definition colors_item :: "string \<Rightarrow> error + string" where
  "colors_item k =
     (case map_of COLORS k of None \<Rightarrow> Inl (KeyError (PStr k)) | Some c \<Rightarrow> Inr c)"

text \<open>Lines 147-151: the totals per label; a severity without a label is skipped.\<close>

definition severity_counts_init :: counts where
  "severity_counts_init =
     [(PStr ''Critical'', 0), (PStr ''High'', 0), (PStr ''Medium'', 0), (PStr ''Low'', 0),
      (PStr ''Info'', 0)]"

fun count_labels :: "vuln_record list \<Rightarrow> counts \<Rightarrow> error + counts" where
  "count_labels [] severity_counts = Inr severity_counts"
| "count_labels (v # vs) severity_counts =
     (case map_of SEVERITY_MAP (v_Severity v) of
        None \<Rightarrow> count_labels vs severity_counts
      | Some label \<Rightarrow>
          if label \<noteq> [] then
            bind_result (counts_incr severity_counts (PStr label)) (count_labels vs)
          else count_labels vs severity_counts)"

text \<open>Lines 157-161: one row per label, the label in column 0 and its count in column 1.\<close>

fun summary_rows :: "nat \<Rightarrow> string list \<Rightarrow> counts \<Rightarrow> worksheet \<Rightarrow> error + worksheet" where
  "summary_rows row [] severity_counts ws = Inr ws"
| "summary_rows row (sev # sevs) severity_counts ws =
     bind_result (counts_get severity_counts (PStr sev)) (\<lambda>n.
       summary_rows (row + 1) sevs severity_counts
         (ws_write (ws_write ws row 0 (PStr sev)) row 1 (PInt n)))"

definition dashboard_chart :: "error + chart" where
  "dashboard_chart =
     bind_result (colors_item ''Critical'') (\<lambda>critical.
     bind_result (colors_item ''High'') (\<lambda>high.
     bind_result (colors_item ''Medium'') (\<lambda>medium.
     bind_result (colors_item ''Low'') (\<lambda>low.
     bind_result (colors_item ''Info'') (\<lambda>info.
       Inr \<lparr> ch_type = ''column'', ch_name = ''Vulnerabilities by Severity'',
             ch_categories = ''=Home!$A$21:$A$25'', ch_values = ''=Home!$B$21:$B$25'',
             ch_points = [critical, high, medium, low, info],
             ch_title = ''Scan Summary'', ch_style = 10 \<rparr>)))))"

definition create_dashboard_chart ::
  "worksheet \<Rightarrow> host_record list \<Rightarrow> vuln_record list \<Rightarrow> error + worksheet" where
  "create_dashboard_chart worksheet hosts_data vulnerabilities =
     bind_result (count_labels vulnerabilities severity_counts_init) (\<lambda>severity_counts.
     bind_result (ws_write_a1 worksheet ''A20'' (PStr ''Severity'')) (\<lambda>ws1.
     bind_result (ws_write_a1 ws1 ''B20'' (PStr ''Count'')) (\<lambda>ws2.
     bind_result
       (summary_rows 20 [''Critical'', ''High'', ''Medium'', ''Low'', ''Info''] severity_counts ws2)
       (\<lambda>ws3.
     bind_result dashboard_chart (\<lambda>chart.
       Inr (ws3\<lparr> ws_charts := ws_charts ws3 @ [(''D2'', chart)] \<rparr>))))))"

text \<open>Lines 189-202: the Home sheet.\<close>

definition home_sheet ::
  "string \<Rightarrow> host_record list \<Rightarrow> vuln_record list \<Rightarrow> compliance_record list
     \<Rightarrow> error + worksheet" where
  "home_sheet now hosts_data vulnerabilities compliance_items =
     (let home_df = DataFrame
            [[(''Scan Date'', PStr now),
              (''Total Hosts'', PInt (int (length hosts_data))),
              (''Total Vulnerabilities'', PInt (int (length vulnerabilities))),
              (''Total Compliance Checks'', PInt (int (length compliance_items)))]];
          worksheet = to_excel home_df ''Home'' 0;
          row = 3
      in create_dashboard_chart (ws_write worksheet row 0 (PStr ''Host Summary''))
           hosts_data vulnerabilities)"

text \<open>Lines 205-213: the Host Summary sheet, with the column list \<open>cols\<close> of line 208.\<close>

definition cols :: "string list" where
  "cols = [''IP Address'', ''FQDN'', ''Operating System'', ''Critical'', ''High'', ''Medium'',
           ''Low'', ''Info'', ''Total'']"

definition host_summary_sheet :: "host_record list \<Rightarrow> error + worksheet list" where
  "host_summary_sheet hosts_data =
     (if hosts_data \<noteq> [] then
        let df_hosts = DataFrame (map host_items hosts_data)
        in bind_result (df_select df_hosts cols) (\<lambda>df_hosts'.
             Inr [(to_excel df_hosts' ''Host Summary'' 0)
                    \<lparr> ws_column_widths := [(''A:B'', 20), (''C:C'', 30)] \<rparr>])
      else Inr [])"

text \<open>Lines 222-236: the loop over the five severities, most severe first.\<close>

fun severity_sheets :: "dataframe \<Rightarrow> string list \<Rightarrow> int list \<Rightarrow> error + worksheet list" where
  "severity_sheets df_vulns disp_cols [] = Inr []"
| "severity_sheets df_vulns disp_cols (severity_val # rest) =
     bind_result (severity_map_item severity_val) (\<lambda>sev_label.
     bind_result (df_where_eq df_vulns ''Severity'' (PInt severity_val)) (\<lambda>subset.
     bind_result
       (if \<not> df_empty subset then
          bind_result (df_select subset disp_cols) (\<lambda>shown.
          bind_result (colors_item sev_label) (\<lambda>color.
            Inr [(to_excel shown sev_label 0)
                   \<lparr> ws_tab_color := Some color,
                     ws_column_widths := [(''A:B'', 18), (''G:G'', 40), (''I:J'', 50)] \<rparr>]))
        else Inr [])
       (\<lambda>sheet.
     bind_result (severity_sheets df_vulns disp_cols rest) (\<lambda>sheets.
       Inr (sheet @ sheets)))))"

text \<open>Lines 216-220: the data frame of the findings and the column list \<open>disp_cols\<close>.\<close>

definition disp_cols :: "string list" where
  "disp_cols = [''IP Address'', ''FQDN'', ''Port'', ''Protocol'', ''Service'', ''Plugin ID'',
                ''Plugin Name'', ''CVSS Base Score'', ''Description'', ''Solution'']"

definition vulnerability_sheets :: "vuln_record list \<Rightarrow> error + worksheet list" where
  "vulnerability_sheets vulnerabilities =
     (if vulnerabilities \<noteq> [] then
        let df_vulns = DataFrame (map vuln_items vulnerabilities)
        in severity_sheets df_vulns disp_cols [4, 3, 2, 1, 0]
      else Inr [])"

text \<open>Lines 239-245: the Compliance sheet.\<close>

definition compliance_sheet :: "compliance_record list \<Rightarrow> worksheet list" where
  "compliance_sheet compliance_items =
     (if compliance_items \<noteq> [] then
        let df_comp = DataFrame (map compliance_items_of compliance_items)
        in [(to_excel df_comp ''Compliance'' 0)
              \<lparr> ws_tab_color := Some ''#800080'',
                ws_column_widths := [(''A:D'', 15), (''H:K'', 25)] \<rparr>]
      else [])"

text \<open>
  \<open>write_excel\<close>: the sheets of the workbook in the order created. The file is written by
  \<open>writer.close()\<close>, the last statement but one, so \<open>Inr\<close> is a written workbook and \<open>Inl\<close> is
  no file. \<open>now\<close> is the formatted \<open>datetime.now()\<close> of the Scan Date cell.
\<close>

definition write_excel ::
  "string \<Rightarrow> host_record list \<Rightarrow> vuln_record list \<Rightarrow> compliance_record list
     \<Rightarrow> error + worksheet list" where
  "write_excel now hosts_data vulnerabilities compliance_items =
     bind_result (home_sheet now hosts_data vulnerabilities compliance_items) (\<lambda>home.
     bind_result (host_summary_sheet hosts_data) (\<lambda>host_summary.
     bind_result (vulnerability_sheets vulnerabilities) (\<lambda>by_severity.
       Inr ([home] @ host_summary @ by_severity @ compliance_sheet compliance_items))))"


section \<open>The run: \<open>main\<close>\<close>

text \<open>
  The parsed command line, the files of the machine, and the two readings of the clock
  (the stamp of the default file name and the Scan Date). A run either ends with an error,
  and then has written nothing, or has written one workbook under \<open>output_file\<close>.
\<close>

record args =
  arg_file :: string
  arg_output :: "string option"

definition main ::
  "(string \<Rightarrow> file_content) \<Rightarrow> string \<Rightarrow> string \<Rightarrow> args
     \<Rightarrow> error + (string \<times> worksheet list)" where
  "main files timestamp now a =
     (let output_file =
            (case arg_output a of
               None \<Rightarrow> ''nessus_report_'' @ timestamp @ ''.xlsx''
             | Some out \<Rightarrow> if out \<noteq> [] then out else ''nessus_report_'' @ timestamp @ ''.xlsx'')
      in bind_result (parse_nessus_xml files (arg_file a)) (\<lambda>(hosts, vulns, compliance).
         bind_result (write_excel now hosts vulns compliance) (\<lambda>workbook.
           Inr (output_file, workbook))))"


section \<open>What the extractor is compared with\<close>

text \<open>
  The entry that lines 110-128 build for one item, written with the plain lookups: the
  record against which the output of the loop is compared.
\<close>

definition finding_of ::
  "string \<Rightarrow> string option \<Rightarrow> string option \<Rightarrow> element \<Rightarrow> int \<Rightarrow> vuln_record" where
  "finding_of file_path ip fqdn item severity =
     \<lparr> v_File = file_path, v_IP_Address = ip, v_FQDN = fqdn,
       v_Port = attrib_get item ''port'', v_Protocol = attrib_get item ''protocol'',
       v_Service = attrib_get item ''svc_name'', v_Plugin_ID = attrib_get item ''pluginID'',
       v_Plugin_Name = attrib_get item ''pluginName'',
       v_Plugin_Family = attrib_get item ''pluginFamily'',
       v_Severity = severity, v_Severity_Label = severity_label severity,
       v_CVSS_Base_Score = find_text ''cvss_base_score'' item,
       v_CVSS_Vector = find_text ''cvss_vector'' item,
       v_Description = find_text ''description'' item,
       v_Solution = find_text ''solution'' item,
       v_Synopsis = find_text ''synopsis'' item,
       v_Exploitability_Ease = find_text ''exploitability_ease'' item \<rparr>"

text \<open>
  An item is a compliance item when its plugin family is the literal of line 79. The
  identity of a host is what lines 62-64 read from its property dict.
\<close>

definition is_compliance :: "element \<Rightarrow> bool" where
  "is_compliance item \<longleftrightarrow> attrib_get item ''pluginFamily'' = Some ''Policy Compliance''"

definition host_ip :: "element \<Rightarrow> string option" where
  "host_ip rh = props_get (host_props_of rh) ''host-ip'' ''N/A''"

definition host_fqdn :: "element \<Rightarrow> string option" where
  "host_fqdn rh = props_get (host_props_of rh) ''host-fqdn'' ''N/A''"

definition host_os :: "element \<Rightarrow> string option" where
  "host_os rh = props_get (host_props_of rh) ''operating-system'' ''N/A''"


text \<open>
  A finding item of a host as the extractor records it, and a host element as the
  extractor records it together with its findings: the identity fields of lines 62-64, and
  one entry per finding item that is not a compliance item, in the order of the items.
\<close>

definition item_extracted :: "string \<Rightarrow> element \<Rightarrow> element \<Rightarrow> vuln_record \<Rightarrow> bool" where
  "item_extracted file_path rh item v =
     (case int_of_attr (attrib_get item ''severity'') of
        Inl _ \<Rightarrow> False
      | Inr severity \<Rightarrow> v = finding_of file_path (host_ip rh) (host_fqdn rh) item severity)"

definition host_extracted ::
  "string \<Rightarrow> element \<Rightarrow> host_record \<Rightarrow> vuln_record list \<Rightarrow> bool" where
  "host_extracted file_path rh h findings \<longleftrightarrow>
     h_IP_Address h = host_ip rh \<and> h_FQDN h = host_fqdn rh \<and>
     h_Operating_System h = host_os rh \<and>
     list_all2 (item_extracted file_path rh)
       (filter (\<lambda>item. \<not> is_compliance item) (findall ''ReportItem'' rh)) findings"

text \<open>
  A property is absent from a host when the host has no \<open>HostProperties\<close> child, or when
  no \<open>tag\<close> child of its first \<open>HostProperties\<close> child has that name.
\<close>

definition prop_absent :: "string \<Rightarrow> element \<Rightarrow> bool" where
  "prop_absent k rh =
     (case find_child ''HostProperties'' rh of
        None \<Rightarrow> True
      | Some host_properties \<Rightarrow>
          list_all (\<lambda>t. attrib_get t ''name'' \<noteq> Some k) (findall ''tag'' host_properties))"





text \<open>
  The cells of one row of a sheet, each with its column index, in the order written; row 0
  of a sheet written by \<open>to_excel\<close> is its header.
\<close>

definition row_cells :: "nat \<Rightarrow> worksheet \<Rightarrow> (nat \<times> pyval) list" where
  "row_cells r ws = map (\<lambda>((i, j), v). (j, v)) (filter (\<lambda>((i, j), v). i = r) (ws_cells ws))"


text \<open>The keys of a finding dict, in the order of the dict literal of lines 110-128.\<close>

definition vuln_keys :: "string list" where
  "vuln_keys = [''File'', ''IP Address'', ''FQDN'', ''Port'', ''Protocol'', ''Service'',
     ''Plugin ID'', ''Plugin Name'', ''Plugin Family'', ''Severity'', ''Severity Label'',
     ''CVSS Base Score'', ''CVSS Vector'', ''Description'', ''Solution'', ''Synopsis'',
     ''Exploitability Ease'']"


section \<open>Example documents\<close>

text \<open>
  One host with one finding item of severity 5, a value outside the five known ordinals:
  \<^verbatim>\<open><NessusClientData_v2><Report name="scan"><ReportHost name="10.0.0.5">
  <ReportItem port="0" svc_name="general" protocol="tcp" severity="5" pluginID="19506"
   pluginName="Scan Information" pluginFamily="Settings"/>
  </ReportHost></Report></NessusClientData_v2>\<close>
\<close>

definition doc_unknown_severity :: element where
  "doc_unknown_severity =
     Element ''NessusClientData_v2'' [] None
       [Element ''Report'' [(''name'', ''scan'')] None
          [Element ''ReportHost'' [(''name'', ''10.0.0.5'')] None
             [Element ''ReportItem''
                [(''port'', ''0''), (''svc_name'', ''general''), (''protocol'', ''tcp''),
                 (''severity'', ''5''), (''pluginID'', ''19506''),
                 (''pluginName'', ''Scan Information''), (''pluginFamily'', ''Settings'')]
                None []]]]"

text \<open>
  One host with one compliance item, as a compliance scan exports it (the \<open>cm\<close> prefix is
  bound by an \<open>xmlns:cm\<close> declaration on the item):
  \<^verbatim>\<open><ReportItem port="0" svc_name="general" protocol="tcp" severity="3" pluginID="21156"
   pluginName="Windows Compliance Checks" pluginFamily="Policy Compliance">
  <cm:compliance-check-name>Password length</cm:compliance-check-name>
  <cm:compliance-result>FAILED</cm:compliance-result></ReportItem>\<close>
\<close>

definition doc_compliance :: element where
  "doc_compliance =
     Element ''NessusClientData_v2'' [] None
       [Element ''Report'' [(''name'', ''scan'')] None
          [Element ''ReportHost'' [(''name'', ''10.0.0.5'')] None
             [Element ''ReportItem''
                [(''port'', ''0''), (''svc_name'', ''general''), (''protocol'', ''tcp''),
                 (''severity'', ''3''), (''pluginID'', ''21156''),
                 (''pluginName'', ''Windows Compliance Checks''),
                 (''pluginFamily'', ''Policy Compliance'')]
                None
                [Element ''cm:compliance-check-name'' [] (Some ''Password length'') [],
                 Element ''cm:compliance-result'' [] (Some ''FAILED'') []]]]]"


text \<open>
  The example scenario of the specification without its compliance item: a host with IP
  10.0.0.5 and no FQDN that has a Critical and a Medium finding, followed by a host without
  a \<open>HostProperties\<close> element that has one Info finding. \<open>example_hosts\<close> and
  \<open>example_findings\<close> are the records expected for it.
\<close>

definition example_host_a :: element where
  "example_host_a =
     Element ''ReportHost'' [(''name'', ''10.0.0.5'')] None
       [Element ''HostProperties'' [] None
          [Element ''tag'' [(''name'', ''host-ip'')] (Some ''10.0.0.5'') [],
           Element ''tag'' [(''name'', ''operating-system'')] (Some ''Linux'') []],
        Element ''ReportItem''
          [(''port'', ''22''), (''svc_name'', ''ssh''), (''protocol'', ''tcp''),
           (''severity'', ''4''), (''pluginID'', ''100''),
           (''pluginName'', ''Weak SSH key''), (''pluginFamily'', ''Misc.'')]
          None
          [Element ''description'' [] (Some ''The key is weak.'') [],
           Element ''solution'' [] None [],
           Element ''cvss_base_score'' [] (Some ''10.0'') []],
        Element ''ReportItem''
          [(''port'', ''80''), (''svc_name'', ''www''), (''protocol'', ''tcp''),
           (''severity'', ''2''), (''pluginID'', ''200''),
           (''pluginName'', ''Old web server''), (''pluginFamily'', ''Web Servers'')]
          None []]"

definition example_host_b :: element where
  "example_host_b =
     Element ''ReportHost'' [(''name'', ''10.0.0.6'')] None
       [Element ''ReportItem''
          [(''port'', ''0''), (''svc_name'', ''general''), (''protocol'', ''tcp''),
           (''severity'', ''0''), (''pluginID'', ''19506''),
           (''pluginName'', ''Scan Information''), (''pluginFamily'', ''Settings'')]
          None []]"

definition example_report :: element where
  "example_report = Element ''Report'' [(''name'', ''scan'')] None [example_host_a, example_host_b]"

definition doc_example :: element where
  "doc_example =
     Element ''NessusClientData_v2'' [] None [Element ''Policy'' [] None [], example_report]"

definition example_hosts :: "host_record list" where
  "example_hosts =
     [\<lparr> h_IP_Address = Some ''10.0.0.5'', h_FQDN = Some ''N/A'',
        h_Operating_System = Some ''Linux'', h_Critical = 1, h_High = 0, h_Medium = 1,
        h_Low = 0, h_Info = 0, h_Total = 2 \<rparr>,
      \<lparr> h_IP_Address = Some ''N/A'', h_FQDN = Some ''N/A'',
        h_Operating_System = Some ''N/A'', h_Critical = 0, h_High = 0, h_Medium = 0,
        h_Low = 0, h_Info = 1, h_Total = 1 \<rparr>]"

definition example_findings :: "vuln_record list list" where
  "example_findings =
     [[\<lparr> v_File = ''scan.nessus'', v_IP_Address = Some ''10.0.0.5'', v_FQDN = Some ''N/A'',
         v_Port = Some ''22'', v_Protocol = Some ''tcp'', v_Service = Some ''ssh'',
         v_Plugin_ID = Some ''100'', v_Plugin_Name = Some ''Weak SSH key'',
         v_Plugin_Family = Some ''Misc.'', v_Severity = 4, v_Severity_Label = ''Critical'',
         v_CVSS_Base_Score = Some ''10.0'', v_CVSS_Vector = None,
         v_Description = Some ''The key is weak.'', v_Solution = Some [],
         v_Synopsis = None, v_Exploitability_Ease = None \<rparr>,
       \<lparr> v_File = ''scan.nessus'', v_IP_Address = Some ''10.0.0.5'', v_FQDN = Some ''N/A'',
         v_Port = Some ''80'', v_Protocol = Some ''tcp'', v_Service = Some ''www'',
         v_Plugin_ID = Some ''200'', v_Plugin_Name = Some ''Old web server'',
         v_Plugin_Family = Some ''Web Servers'', v_Severity = 2, v_Severity_Label = ''Medium'',
         v_CVSS_Base_Score = None, v_CVSS_Vector = None, v_Description = None,
         v_Solution = None, v_Synopsis = None, v_Exploitability_Ease = None \<rparr>],
      [\<lparr> v_File = ''scan.nessus'', v_IP_Address = Some ''N/A'', v_FQDN = Some ''N/A'',
         v_Port = Some ''0'', v_Protocol = Some ''tcp'', v_Service = Some ''general'',
         v_Plugin_ID = Some ''19506'', v_Plugin_Name = Some ''Scan Information'',
         v_Plugin_Family = Some ''Settings'', v_Severity = 0, v_Severity_Label = ''Info'',
         v_CVSS_Base_Score = None, v_CVSS_Vector = None, v_Description = None,
         v_Solution = None, v_Synopsis = None, v_Exploitability_Ease = None \<rparr>]]"





text \<open>A scan whose report has no host.\<close>

definition doc_no_hosts :: element where
  "doc_no_hosts =
     Element ''NessusClientData_v2'' [] None
       [Element ''Policy'' [] None [], Element ''Report'' [(''name'', ''empty scan'')] None []]"


section \<open>Auxiliary lemmas\<close>

lemma bind_result_simps [simp]:
  "bind_result (Inl e) f = Inl e"
  "bind_result (Inr x) f = f x"
  by (simp_all add: bind_result_def)

lemma bind_result_Inr_iff:
  "bind_result r f = Inr y \<longleftrightarrow> (\<exists>x. r = Inr x \<and> f x = Inr y)"
  by (cases r) simp_all


lemma findtext_plain:
  "findtext ''description'' item = Inr (find_text ''description'' item)"
  "findtext ''solution'' item = Inr (find_text ''solution'' item)"
  "findtext ''synopsis'' item = Inr (find_text ''synopsis'' item)"
  "findtext ''cvss_base_score'' item = Inr (find_text ''cvss_base_score'' item)"
  "findtext ''cvss_vector'' item = Inr (find_text ''cvss_vector'' item)"
  "findtext ''exploitability_ease'' item = Inr (find_text ''exploitability_ease'' item)"
  by (simp_all add: findtext_def path_prefix_def)

lemma compliance_dict_fails:
  "compliance_dict fp ip fqdn pid sev pn item = Inl (SyntaxError ''cm'')"
  by (simp add: compliance_dict_def findtext_def path_prefix_def)

lemma report_item_Inr:
  assumes "report_item fp ip fqdn item (c, vs, cs) = Inr (c', vs', cs')"
  shows "\<not> is_compliance item \<and>
         (\<exists>sev. int_of_attr (attrib_get item ''severity'') = Inr sev \<and>
                counts_incr c (PInt sev) = Inr c' \<and>
                vs' = vs @ [finding_of fp ip fqdn item sev] \<and> cs' = cs)"
  using assms
  by (auto simp: report_item_def bind_result_Inr_iff compliance_dict_fails findtext_plain
      finding_of_def is_compliance_def Let_def split: if_splits)


lemma incr_sum_notin:
  "k \<notin> fst ` set d \<Longrightarrow>
   sum_list (map (\<lambda>p. snd (case p of (k', v') \<Rightarrow> if k' = k then (k', v' + 1) else (k', v'))) (d :: counts))
     = sum_list (map snd d)"
  by (induction d) auto

lemma incr_sum:
  "distinct (map fst d) \<Longrightarrow> k \<in> fst ` set d \<Longrightarrow>
   sum_list (map (\<lambda>p. snd (case p of (k', v') \<Rightarrow> if k' = k then (k', v' + 1) else (k', v'))) (d :: counts))
     = sum_list (map snd d) + 1"
proof (induction d)
  case Nil
  then show ?case by simp
next
  case (Cons x d)
  obtain a b where x: "x = (a, b)" by (cases x)
  show ?case
  proof (cases "a = k")
    case True
    then have "k \<notin> fst ` set d" using Cons.prems(1) x by auto
    then show ?thesis using True x by (simp add: incr_sum_notin)
  next
    case False
    then have "k \<in> fst ` set d" using Cons.prems(2) x by auto
    moreover have "distinct (map fst d)" using Cons.prems(1) by simp
    ultimately show ?thesis using Cons.IH False x by simp
  qed
qed

lemma counts_incr_keys: "counts_incr d k = Inr d' \<Longrightarrow> map fst d' = map fst d"
  by (auto simp: counts_incr_def split: option.splits)

lemma counts_incr_sum:
  assumes "distinct (map fst d)" "counts_incr d k = Inr d'"
  shows "sum_list (map snd d') = sum_list (map snd d) + 1"
proof -
  from assms(2) obtain v where v: "map_of d k = Some v"
    and d': "d' = map (\<lambda>(k', v'). if k' = k then (k', v' + 1) else (k', v')) d"
    by (auto simp: counts_incr_def split: option.splits)
  from v have "k \<in> fst ` set d" by (metis map_of_eq_None_iff option.distinct(1))
  with assms(1) d' show ?thesis by (simp add: incr_sum comp_def)
qed

lemma counts_five:
  assumes "map fst d = map fst counts_init"
  shows "\<exists>a b c e f. d = [(PInt 0, f), (PInt 1, e), (PInt 2, c), (PInt 3, b), (PInt 4, a)]"
  using assms by (auto simp: counts_init_def map_eq_Cons_conv)

lemma report_items_Inr:
  "report_items fp ip fqdn items (c, vs, cs) = Inr (c', vs', cs') \<Longrightarrow>
   distinct (map fst c) \<Longrightarrow>
   map fst c' = map fst c \<and>
   sum_list (map snd c') = sum_list (map snd c) + int (length items) \<and>
   cs' = cs \<and> (\<forall>item \<in> set items. \<not> is_compliance item) \<and>
   (\<exists>new. vs' = vs @ new \<and>
      list_all2 (\<lambda>item v. \<exists>sev. int_of_attr (attrib_get item ''severity'') = Inr sev \<and>
                            v = finding_of fp ip fqdn item sev) items new)"
proof (induction items arbitrary: c vs cs)
  case Nil
  then show ?case by simp
next
  case (Cons item items)
  from Cons.prems(1) obtain c1 vs1 cs1 where
    step: "report_item fp ip fqdn item (c, vs, cs) = Inr (c1, vs1, cs1)"
    and rest: "report_items fp ip fqdn items (c1, vs1, cs1) = Inr (c', vs', cs')"
    by (auto simp: bind_result_Inr_iff)
  from report_item_Inr[OF step] obtain sev where
    nc: "\<not> is_compliance item"
    and sev: "int_of_attr (attrib_get item ''severity'') = Inr sev"
    and inc: "counts_incr c (PInt sev) = Inr c1"
    and vs1: "vs1 = vs @ [finding_of fp ip fqdn item sev]" and cs1: "cs1 = cs"
    by blast
  have k1: "map fst c1 = map fst c" using inc by (rule counts_incr_keys)
  have s1: "sum_list (map snd c1) = sum_list (map snd c) + 1"
    using Cons.prems(2) inc by (rule counts_incr_sum)
  have d1: "distinct (map fst c1)" using k1 Cons.prems(2) by simp
  from Cons.IH[OF rest d1] obtain new where
    ih: "map fst c' = map fst c1" "sum_list (map snd c') = sum_list (map snd c1) + int (length items)"
        "cs' = cs1" "\<forall>item \<in> set items. \<not> is_compliance item"
        "vs' = vs1 @ new"
        "list_all2 (\<lambda>item v. \<exists>sev. int_of_attr (attrib_get item ''severity'') = Inr sev \<and>
                            v = finding_of fp ip fqdn item sev) items new"
    by blast
  have "vs' = vs @ (finding_of fp ip fqdn item sev # new)" using ih(5) vs1 by simp
  moreover have "list_all2 (\<lambda>item v. \<exists>sev. int_of_attr (attrib_get item ''severity'') = Inr sev \<and>
                            v = finding_of fp ip fqdn item sev) (item # items)
                   (finding_of fp ip fqdn item sev # new)"
    using ih(6) sev by simp
  ultimately show ?case using ih(1-4) k1 s1 cs1 nc by auto
qed


lemma counts_get_five:
  "counts_get [(PInt 0, f), (PInt 1, e), (PInt 2, c), (PInt 3, b), (PInt 4, a)] (PInt 4) = Inr a"
  "counts_get [(PInt 0, f), (PInt 1, e), (PInt 2, c), (PInt 3, b), (PInt 4, a)] (PInt 3) = Inr b"
  "counts_get [(PInt 0, f), (PInt 1, e), (PInt 2, c), (PInt 3, b), (PInt 4, a)] (PInt 2) = Inr c"
  "counts_get [(PInt 0, f), (PInt 1, e), (PInt 2, c), (PInt 3, b), (PInt 4, a)] (PInt 1) = Inr e"
  "counts_get [(PInt 0, f), (PInt 1, e), (PInt 2, c), (PInt 3, b), (PInt 4, a)] (PInt 0) = Inr f"
  by (simp_all add: counts_get_def)

lemma report_host_Inr:
  assumes "report_host fp rh (hs, vs, cs) = Inr (hs', vs', cs')"
  shows "\<exists>h new. hs' = hs @ [h] \<and> vs' = vs @ new \<and> cs' = cs \<and>
           host_extracted fp rh h new \<and>
           h_Critical h + h_High h + h_Medium h + h_Low h + h_Info h = h_Total h \<and>
           h_Total h = int (length new) \<and>
           (\<forall>item \<in> set (findall ''ReportItem'' rh). \<not> is_compliance item)"
proof -
  let ?items = "findall ''ReportItem'' rh"
  from assms obtain c1 vs1 cs1 where
    loop: "report_items fp (host_ip rh) (host_fqdn rh) ?items (counts_init, vs, cs)
             = Inr (c1, vs1, cs1)"
    and fin: "bind_result (counts_get c1 (PInt 4)) (\<lambda>critical.
            bind_result (counts_get c1 (PInt 3)) (\<lambda>high.
            bind_result (counts_get c1 (PInt 2)) (\<lambda>medium.
            bind_result (counts_get c1 (PInt 1)) (\<lambda>low.
            bind_result (counts_get c1 (PInt 0)) (\<lambda>info.
              Inr (hs @
                     [\<lparr> h_IP_Address = host_ip rh, h_FQDN = host_fqdn rh,
                        h_Operating_System = host_os rh,
                        h_Critical = critical, h_High = high, h_Medium = medium, h_Low = low,
                        h_Info = info, h_Total = sum_list (map snd c1) \<rparr>],
                   vs1, cs1)))))) = Inr (hs', vs', cs')"
    by (auto simp: report_host_def Let_def bind_result_Inr_iff host_ip_def host_fqdn_def
        host_os_def)
  have dist: "distinct (map fst counts_init)" by (simp add: counts_init_def)
  from report_items_Inr[OF loop dist] obtain new where
    keys: "map fst c1 = map fst counts_init"
    and total: "sum_list (map snd c1) = sum_list (map snd counts_init) + int (length ?items)"
    and cs1: "cs1 = cs" and nc: "\<forall>item \<in> set ?items. \<not> is_compliance item"
    and vs1: "vs1 = vs @ new"
    and new: "list_all2 (\<lambda>item v. \<exists>sev. int_of_attr (attrib_get item ''severity'') = Inr sev \<and>
                v = finding_of fp (host_ip rh) (host_fqdn rh) item sev) ?items new"
    by blast
  from counts_five[OF keys] obtain a b c e f where
    c1: "c1 = [(PInt 0, f), (PInt 1, e), (PInt 2, c), (PInt 3, b), (PInt 4, a)]" by blast
  define h where "h = \<lparr> h_IP_Address = host_ip rh, h_FQDN = host_fqdn rh,
      h_Operating_System = host_os rh, h_Critical = a, h_High = b, h_Medium = c, h_Low = e,
      h_Info = f, h_Total = sum_list (map snd c1) \<rparr>"
  from fin have res: "hs' = hs @ [h]" "vs' = vs1" "cs' = cs1"
    by (simp_all add: c1 counts_get_five h_def)
  have len: "length new = length ?items" using new by (simp add: list_all2_lengthD)
  have tot: "h_Total h = int (length new)"
    using total len by (simp add: h_def counts_init_def)
  have sum5: "h_Critical h + h_High h + h_Medium h + h_Low h + h_Info h = h_Total h"
    by (simp add: h_def c1)
  have filt: "filter (\<lambda>item. \<not> is_compliance item) ?items = ?items"
    using nc by (simp add: filter_id_conv)
  have "list_all2 (item_extracted fp rh) ?items new"
    using new by (rule list_all2_mono) (auto simp: item_extracted_def)
  then have ext: "host_extracted fp rh h new"
    by (simp add: host_extracted_def filt h_def)
  show ?thesis using res vs1 cs1 ext sum5 tot nc by blast
qed

lemma report_hosts_Inr:
  "report_hosts fp rhs (hs, vs, cs) = Inr (hs', vs', cs') \<Longrightarrow>
   \<exists>hsegs. hs' = hs @ map fst hsegs \<and> vs' = vs @ concat (map snd hsegs) \<and> cs' = cs \<and>
     list_all2 (\<lambda>rh (h, seg). host_extracted fp rh h seg \<and>
        h_Critical h + h_High h + h_Medium h + h_Low h + h_Info h = h_Total h \<and>
        h_Total h = int (length seg) \<and>
        (\<forall>item \<in> set (findall ''ReportItem'' rh). \<not> is_compliance item)) rhs hsegs"
proof (induction rhs arbitrary: hs vs cs)
  case Nil
  then show ?case by simp
next
  case (Cons rh rhs)
  from Cons.prems obtain hs1 vs1 cs1 where
    step: "report_host fp rh (hs, vs, cs) = Inr (hs1, vs1, cs1)"
    and rest: "report_hosts fp rhs (hs1, vs1, cs1) = Inr (hs', vs', cs')"
    by (auto simp: bind_result_Inr_iff)
  from report_host_Inr[OF step] obtain h new where
    one: "hs1 = hs @ [h]" "vs1 = vs @ new" "cs1 = cs" "host_extracted fp rh h new"
      "h_Critical h + h_High h + h_Medium h + h_Low h + h_Info h = h_Total h"
      "h_Total h = int (length new)"
      "\<forall>item \<in> set (findall ''ReportItem'' rh). \<not> is_compliance item"
    by blast
  from Cons.IH[OF rest] obtain hsegs where
    ih: "hs' = hs1 @ map fst hsegs" "vs' = vs1 @ concat (map snd hsegs)" "cs' = cs1"
      "list_all2 (\<lambda>rh (h, seg). host_extracted fp rh h seg \<and>
        h_Critical h + h_High h + h_Medium h + h_Low h + h_Info h = h_Total h \<and>
        h_Total h = int (length seg) \<and>
        (\<forall>item \<in> set (findall ''ReportItem'' rh). \<not> is_compliance item)) rhs hsegs"
    by blast
  let ?hsegs = "(h, new) # hsegs"
  have "hs' = hs @ map fst ?hsegs" "vs' = vs @ concat (map snd ?hsegs)" "cs' = cs"
    using one(1-3) ih(1-3) by simp_all
  moreover have "list_all2 (\<lambda>rh (h, seg). host_extracted fp rh h seg \<and>
        h_Critical h + h_High h + h_Medium h + h_Low h + h_Info h = h_Total h \<and>
        h_Total h = int (length seg) \<and>
        (\<forall>item \<in> set (findall ''ReportItem'' rh). \<not> is_compliance item)) (rh # rhs) ?hsegs"
    using one(4-7) ih(4) by simp
  ultimately show ?case by blast
qed


lemma example_parse:
  "parse_nessus_xml (\<lambda>_. Document doc_example) ''scan.nessus''
     = Inr (example_hosts, concat example_findings, [])"
  by code_simp

lemma parse_nessus_xml_Inr:
  assumes "parse_nessus_xml files fp = Inr (hs, vs, cs)"
    and "files fp = Document root" and "find_child ''Report'' root = Some report"
  shows "\<exists>hsegs. hs = map fst hsegs \<and> vs = concat (map snd hsegs) \<and> cs = [] \<and>
     list_all2 (\<lambda>rh (h, seg). host_extracted fp rh h seg \<and>
        h_Critical h + h_High h + h_Medium h + h_Low h + h_Info h = h_Total h \<and>
        h_Total h = int (length seg) \<and>
        (\<forall>item \<in> set (findall ''ReportItem'' rh). \<not> is_compliance item))
       (findall ''ReportHost'' report) hsegs"
proof -
  from assms have "report_hosts fp (findall ''ReportHost'' report) ([], [], []) = Inr (hs, vs, cs)"
    by (simp add: parse_nessus_xml_def)
  from report_hosts_Inr[OF this] show ?thesis by simp
qed




lemma host_props_absent:
  assumes "prop_absent k rh"
  shows "props_get (host_props_of rh) k d = Some d"
proof -
  have fold: "list_all (\<lambda>t. attrib_get t ''name'' \<noteq> Some k) ts \<Longrightarrow>
      foldl (\<lambda>host_props t. host_props(attrib_get t ''name'' \<mapsto> el_text t)) m ts (Some k)
        = m (Some k)" for ts and m :: "string option \<rightharpoonup> string option"
    by (induction ts arbitrary: m) auto
  show ?thesis
  proof (cases "find_child ''HostProperties'' rh")
    case None
    then show ?thesis by (simp add: host_props_of_def props_get_def)
  next
    case (Some hp)
    with assms have "list_all (\<lambda>t. attrib_get t ''name'' \<noteq> Some k) (findall ''tag'' hp)"
      by (simp add: prop_absent_def)
    from fold[OF this, of Map.empty] Some show ?thesis
      by (simp add: host_props_of_def props_get_def)
  qed
qed



lemma example_tree:
  "find_child ''Report'' doc_example = Some example_report"
  "findall ''ReportHost'' example_report = [example_host_a, example_host_b]"
  by code_simp+





lemma a1_cells:
  "xl_cell_to_rowcol ''A20'' = Some (19, 0)"
  "xl_cell_to_rowcol ''B20'' = Some (19, 1)"
  by code_simp+

lemma chart_ranges:
  "range_cells ''=Home!$A$21:$A$25'' = Some (''Home'', [(20, 0), (21, 0), (22, 0), (23, 0), (24, 0)])"
  "range_cells ''=Home!$B$21:$B$25'' = Some (''Home'', [(20, 1), (21, 1), (22, 1), (23, 1), (24, 1)])"
  by code_simp+

lemma dashboard_chart_Inr:
  "dashboard_chart =
     Inr \<lparr> ch_type = ''column'', ch_name = ''Vulnerabilities by Severity'',
           ch_categories = ''=Home!$A$21:$A$25'', ch_values = ''=Home!$B$21:$B$25'',
           ch_points = [''#D20F0F'', ''#FF8000'', ''#FFCC00'', ''#00CC00'', ''#0000FF''],
           ch_title = ''Scan Summary'', ch_style = 10 \<rparr>"
  by (simp add: dashboard_chart_def colors_item_def COLORS_def)

lemma severity_counts_five:
  assumes "map fst sc = map fst severity_counts_init"
  shows "\<exists>a b c d e. sc = [(PStr ''Critical'', a), (PStr ''High'', b), (PStr ''Medium'', c),
                            (PStr ''Low'', d), (PStr ''Info'', e)]"
  using assms by (auto simp: severity_counts_init_def map_eq_Cons_conv)

lemma severity_map_labels:
  "map_of SEVERITY_MAP sev = Some label \<Longrightarrow>
   label \<in> {''Critical'', ''High'', ''Medium'', ''Low'', ''Info''}"
  by (auto simp: SEVERITY_MAP_def split: if_splits)

lemma count_labels_Inr:
  "map fst sc = map fst severity_counts_init \<Longrightarrow>
   \<exists>sc'. count_labels vs sc = Inr sc' \<and> map fst sc' = map fst severity_counts_init"
proof (induction vs arbitrary: sc)
  case Nil
  then show ?case by simp
next
  case (Cons v vs)
  show ?case
  proof (cases "map_of SEVERITY_MAP (v_Severity v)")
    case None
    then show ?thesis using Cons by simp
  next
    case (Some label)
    from severity_counts_five[OF Cons.prems] obtain a b c d e where
      sc: "sc = [(PStr ''Critical'', a), (PStr ''High'', b), (PStr ''Medium'', c),
                 (PStr ''Low'', d), (PStr ''Info'', e)]" by blast
    from severity_map_labels[OF Some] have
      "\<exists>sc1. counts_incr sc (PStr label) = Inr sc1 \<and> map fst sc1 = map fst severity_counts_init"
      by (auto simp: sc counts_incr_def severity_counts_init_def)
    then obtain sc1 where inc: "counts_incr sc (PStr label) = Inr sc1"
      and k1: "map fst sc1 = map fst severity_counts_init" by blast
    from Cons.IH[OF k1] Cons.IH[OF Cons.prems] Some inc show ?thesis by auto
  qed
qed

lemma create_dashboard_chart_Inr:
  "\<exists>a b c d e chart.
     count_labels vulnerabilities severity_counts_init
       = Inr [(PStr ''Critical'', a), (PStr ''High'', b), (PStr ''Medium'', c),
              (PStr ''Low'', d), (PStr ''Info'', e)] \<and>
     dashboard_chart = Inr chart \<and>
     create_dashboard_chart worksheet hosts_data vulnerabilities =
       Inr (worksheet\<lparr> ws_cells := ws_cells worksheet @
              [((19, 0), PStr ''Severity''), ((19, 1), PStr ''Count''),
               ((20, 0), PStr ''Critical''), ((20, 1), PInt a),
               ((21, 0), PStr ''High''), ((21, 1), PInt b),
               ((22, 0), PStr ''Medium''), ((22, 1), PInt c),
               ((23, 0), PStr ''Low''), ((23, 1), PInt d),
               ((24, 0), PStr ''Info''), ((24, 1), PInt e)],
            ws_charts := ws_charts worksheet @ [(''D2'', chart)] \<rparr>)"
proof -
  from count_labels_Inr[OF refl, of vulnerabilities] obtain sc where
    cl: "count_labels vulnerabilities severity_counts_init = Inr sc"
    and keys: "map fst sc = map fst severity_counts_init" by blast
  from severity_counts_five[OF keys] obtain a b c d e where
    sc: "sc = [(PStr ''Critical'', a), (PStr ''High'', b), (PStr ''Medium'', c),
               (PStr ''Low'', d), (PStr ''Info'', e)]" by blast
  show ?thesis
    using cl unfolding sc
    by (simp add: create_dashboard_chart_def ws_write_a1_def a1_cells ws_write_def
        counts_get_def dashboard_chart_Inr)
qed


lemma table_cells_Cons:
  "table_cells s (row # rows) =
     map (\<lambda>(j, v). ((s, j), v)) (enumerate 0 row) @ table_cells (Suc s) rows"
  by (simp add: table_cells_def)

lemma table_cells_below:
  "((i, j), v) \<in> set (table_cells s rows) \<Longrightarrow> s \<le> i"
proof (induction rows arbitrary: s)
  case Nil
  then show ?case by (simp add: table_cells_def)
next
  case (Cons row rows)
  then show ?case by (fastforce simp: table_cells_Cons)
qed

lemma filter_row_none:
  "filter (\<lambda>((i, j), v). i = s) (table_cells (Suc s) rows) = []"
  by (auto simp: filter_empty_conv dest: table_cells_below)

lemma filter_row_all:
  "filter (\<lambda>((i, j), v). i = s) (map (\<lambda>(j, v). ((s, j), v)) xs) = map (\<lambda>(j, v). ((s, j), v)) xs"
  by (induction xs) auto

lemma row_cells_to_excel:
  "row_cells s (to_excel df name s) = enumerate 0 (map PStr (df_columns df))"
proof -
  have "map (\<lambda>((i, j), v). (j, v)) (map (\<lambda>(j, v). ((s, j), v)) xs) = xs"
    for xs :: "(nat \<times> pyval) list" by (induction xs) auto
  then show ?thesis
    by (simp add: row_cells_def to_excel_def table_cells_Cons filter_row_none filter_row_all)
qed

lemma row_cells_update [simp]:
  "row_cells r (ws\<lparr> ws_tab_color := t \<rparr>) = row_cells r ws"
  "row_cells r (ws\<lparr> ws_column_widths := w \<rparr>) = row_cells r ws"
  "row_cells r (ws\<lparr> ws_charts := c \<rparr>) = row_cells r ws"
  by (simp_all add: row_cells_def)

lemma to_excel_name [simp]: "ws_name (to_excel df name s) = name"
  by (simp add: to_excel_def)


lemma find_missing_self: "find (\<lambda>c. c \<notin> set xs) xs = None"
  by (simp add: find_None_iff)

lemma find_missing_disp: "find (\<lambda>c. c \<notin> set vuln_keys) disp_cols = None"
  by (simp add: find_None_iff vuln_keys_def disp_cols_def)

lemma host_frame:
  "hs \<noteq> [] \<Longrightarrow> df_columns (DataFrame (map host_items hs)) = cols"
  by (cases hs) (simp_all add: DataFrame_def host_items_def cols_def)

lemma host_summary_sheet_Inr:
  "hs \<noteq> [] \<Longrightarrow>
   \<exists>s. host_summary_sheet hs = Inr [s] \<and> ws_name s = ''Host Summary'' \<and>
       row_cells 0 s = enumerate 0 (map PStr cols)"
  by (simp add: host_summary_sheet_def df_select_def host_frame row_cells_to_excel Let_def
      find_missing_self)

lemma vuln_items_keys: "map fst (vuln_items v) = vuln_keys"
  by (simp add: vuln_items_def vuln_keys_def)

lemma vuln_items_row:
  "map (\<lambda>c. case map_of (vuln_items v) c of None \<Rightarrow> PNone | Some x \<Rightarrow> x) vuln_keys
     = map snd (vuln_items v)"
  by (simp add: vuln_items_def vuln_keys_def)

lemma vuln_frame:
  "vs \<noteq> [] \<Longrightarrow>
   DataFrame (map vuln_items vs)
     = \<lparr> df_columns = vuln_keys, df_rows = map (\<lambda>v. map snd (vuln_items v)) vs \<rparr>"
  by (cases vs) (simp_all add: DataFrame_def vuln_items_keys vuln_items_row)

lemma vuln_row_severity:
  "row_get vuln_keys (map snd (vuln_items v)) ''Severity'' = PInt (v_Severity v)"
  by (simp add: row_get_def vuln_items_def vuln_keys_def)

lemma vuln_where_eq:
  "vs \<noteq> [] \<Longrightarrow>
   df_where_eq (DataFrame (map vuln_items vs)) ''Severity'' (PInt sev)
     = Inr \<lparr> df_columns = vuln_keys,
             df_rows = map (\<lambda>v. map snd (vuln_items v)) (filter (\<lambda>v. v_Severity v = sev) vs) \<rparr>"
  by (simp add: df_where_eq_def vuln_frame filter_map comp_def vuln_row_severity)
     (simp add: vuln_keys_def)

lemma vuln_select:
  "\<exists>rows. df_select \<lparr> df_columns = vuln_keys, df_rows = rs \<rparr> disp_cols
            = Inr \<lparr> df_columns = disp_cols, df_rows = rows \<rparr>"
  by (simp add: df_select_def find_missing_disp)


lemma known_severity:
  assumes "sev \<in> {0, 1, 2, 3, 4}"
  shows "severity_map_item sev = Inr (severity_label sev)"
    and "\<exists>color. colors_item (severity_label sev) = Inr color"
  using assms
  by (auto simp: severity_map_item_def severity_label_def SEVERITY_MAP_def colors_item_def
      COLORS_def)

lemma severity_sheets_Inr:
  "vs \<noteq> [] \<Longrightarrow> set sevs \<subseteq> {0, 1, 2, 3, 4} \<Longrightarrow>
   \<exists>sheets. severity_sheets (DataFrame (map vuln_items vs)) disp_cols sevs = Inr sheets \<and>
     map ws_name sheets
       = map severity_label (filter (\<lambda>sev. \<exists>v \<in> set vs. v_Severity v = sev) sevs) \<and>
     (\<forall>ws \<in> set sheets. row_cells 0 ws = enumerate 0 (map PStr disp_cols))"
proof (induction sevs)
  case Nil
  then show ?case by simp
next
  case (Cons sev sevs)
  then have sev: "sev \<in> {0, 1, 2, 3, 4}" and rest: "set sevs \<subseteq> {0, 1, 2, 3, 4}" by auto
  from Cons.IH[OF Cons.prems(1) rest] obtain sheets where
    ih: "severity_sheets (DataFrame (map vuln_items vs)) disp_cols sevs = Inr sheets"
      "map ws_name sheets
         = map severity_label (filter (\<lambda>sev. \<exists>v \<in> set vs. v_Severity v = sev) sevs)"
      "\<forall>ws \<in> set sheets. row_cells 0 ws = enumerate 0 (map PStr disp_cols)"
    by blast
  from known_severity(2)[OF sev] obtain color where
    color: "colors_item (severity_label sev) = Inr color" by blast
  let ?rows = "map (\<lambda>v. map snd (vuln_items v)) (filter (\<lambda>v. v_Severity v = sev) vs)"
  from vuln_select[of ?rows] obtain shown where
    sel: "df_select \<lparr> df_columns = vuln_keys, df_rows = ?rows \<rparr> disp_cols
            = Inr \<lparr> df_columns = disp_cols, df_rows = shown \<rparr>" by blast
  have nonempty: "vuln_keys \<noteq> []" by (simp add: vuln_keys_def)
  show ?case
  proof (cases "\<exists>v \<in> set vs. v_Severity v = sev")
    case True
    then have "filter (\<lambda>v. v_Severity v = sev) vs \<noteq> []" by (simp add: filter_empty_conv)
    then show ?thesis
      using True ih color sel nonempty
      by (simp add: known_severity(1)[OF sev] vuln_where_eq[OF Cons.prems(1)] df_empty_def
          row_cells_to_excel)
  next
    case False
    then have "filter (\<lambda>v. v_Severity v = sev) vs = []" by (simp add: filter_empty_conv)
    then show ?thesis
      using False ih
      by (simp add: known_severity(1)[OF sev] vuln_where_eq[OF Cons.prems(1)] df_empty_def)
  qed
qed

lemma vulnerability_sheets_Inr:
  "\<exists>sheets. vulnerability_sheets vs = Inr sheets \<and>
     map ws_name sheets
       = map severity_label (filter (\<lambda>sev. \<exists>v \<in> set vs. v_Severity v = sev) [4, 3, 2, 1, 0]) \<and>
     (\<forall>ws \<in> set sheets. row_cells 0 ws = enumerate 0 (map PStr disp_cols))"
proof (cases "vs = []")
  case True
  then show ?thesis by (simp add: vulnerability_sheets_def)
next
  case False
  have "set [4, 3, 2, 1, 0 :: int] \<subseteq> {0, 1, 2, 3, 4}" by simp
  from severity_sheets_Inr[OF False this] show ?thesis
    using False by (simp add: vulnerability_sheets_def Let_def)
qed

lemma home_sheet_Inr:
  "\<exists>home. home_sheet now hs vs cs = Inr home \<and> ws_name home = ''Home''"
proof -
  let ?ws = "ws_write (to_excel (DataFrame
            [[(''Scan Date'', PStr now),
              (''Total Hosts'', PInt (int (length hs))),
              (''Total Vulnerabilities'', PInt (int (length vs))),
              (''Total Compliance Checks'', PInt (int (length cs)))]]) ''Home'' 0) 3 0
            (PStr ''Host Summary'')"
  from create_dashboard_chart_Inr[of vs ?ws hs] show ?thesis
    by (auto simp: home_sheet_def Let_def ws_write_def)
qed

lemma compliance_sheet_names:
  "map ws_name (compliance_sheet cs) = (if cs = [] then [] else [''Compliance''])"
  by (simp add: compliance_sheet_def Let_def)

lemma write_excel_Inr:
  "\<exists>home hsum sevs.
     write_excel now hs vs cs = Inr (home # hsum @ sevs @ compliance_sheet cs) \<and>
     home_sheet now hs vs cs = Inr home \<and> ws_name home = ''Home'' \<and>
     host_summary_sheet hs = Inr hsum \<and>
     (hs = [] \<longrightarrow> hsum = []) \<and>
     (hs \<noteq> [] \<longrightarrow> (\<exists>s. hsum = [s] \<and> ws_name s = ''Host Summary'' \<and>
                        row_cells 0 s = enumerate 0 (map PStr cols))) \<and>
     map ws_name sevs
       = map severity_label (filter (\<lambda>sev. \<exists>v \<in> set vs. v_Severity v = sev) [4, 3, 2, 1, 0]) \<and>
     (\<forall>ws \<in> set sevs. row_cells 0 ws = enumerate 0 (map PStr disp_cols))"
proof -
  from home_sheet_Inr obtain home where
    home: "home_sheet now hs vs cs = Inr home" "ws_name home = ''Home''" by blast
  from vulnerability_sheets_Inr obtain sevs where
    sevs: "vulnerability_sheets vs = Inr sevs"
      "map ws_name sevs
         = map severity_label (filter (\<lambda>sev. \<exists>v \<in> set vs. v_Severity v = sev) [4, 3, 2, 1, 0])"
      "\<forall>ws \<in> set sevs. row_cells 0 ws = enumerate 0 (map PStr disp_cols)" by blast
  show ?thesis
  proof (cases "hs = []")
    case True
    then have "host_summary_sheet hs = Inr []" by (simp add: host_summary_sheet_def)
    with home sevs True show ?thesis by (simp add: write_excel_def)
  next
    case False
    from host_summary_sheet_Inr[OF False] obtain s where
      "host_summary_sheet hs = Inr [s]" "ws_name s = ''Host Summary''"
      "row_cells 0 s = enumerate 0 (map PStr cols)" by blast
    with home sevs False show ?thesis by (simp add: write_excel_def)
  qed
qed


lemma example_severities:
  "map v_Severity (concat example_findings) = [4, 2, 0]"
  by (simp add: example_findings_def)

lemma workbook_names:
  assumes "write_excel now hs vs cs = Inr workbook"
  shows "map ws_name workbook =
     ''Home'' # (if hs = [] then [] else [''Host Summary'']) @
     map severity_label (filter (\<lambda>sev. \<exists>v \<in> set vs. v_Severity v = sev) [4, 3, 2, 1, 0]) @
     (if cs = [] then [] else [''Compliance''])"
proof -
  from write_excel_Inr[of now hs vs cs] assms obtain home hsum sevs where
    wb: "workbook = home # hsum @ sevs @ compliance_sheet cs"
    and home: "ws_name home = ''Home''"
    and h0: "hs = [] \<longrightarrow> hsum = []"
    and h1: "hs \<noteq> [] \<longrightarrow> (\<exists>s. hsum = [s] \<and> ws_name s = ''Host Summary'' \<and>
                        row_cells 0 s = enumerate 0 (map PStr cols))"
    and sv: "map ws_name sevs
       = map severity_label (filter (\<lambda>sev. \<exists>v \<in> set vs. v_Severity v = sev) [4, 3, 2, 1, 0])"
    by auto
  have "map ws_name hsum = (if hs = [] then [] else [''Host Summary''])"
    using h0 h1 by auto
  then show ?thesis
    unfolding wb using home sv by (simp add: compliance_sheet_names)
qed

lemma label_in_names:
  assumes "map_of SEVERITY_MAP sev = Some label"
  shows "label \<in> set (map severity_label (filter P [4, 3, 2, 1, 0])) \<longleftrightarrow> P sev"
    and "label \<noteq> ''Home''" and "label \<noteq> ''Host Summary''" and "label \<noteq> ''Compliance''"
  using assms
  by (auto simp: SEVERITY_MAP_def severity_label_def split: if_splits)







lemma home_sheet_rows:
  assumes "home_sheet now hs vs cs = Inr home"
  shows "ws_name home = ''Home''"
    and "row_cells 0 home =
      [(0, PStr ''Scan Date''), (1, PStr ''Total Hosts''), (2, PStr ''Total Vulnerabilities''),
       (3, PStr ''Total Compliance Checks'')]"
    and "row_cells 1 home =
      [(0, PStr now), (1, PInt (int (length hs))), (2, PInt (int (length vs))),
       (3, PInt (int (length cs)))]"
proof -
  let ?ws = "ws_write (to_excel (DataFrame
            [[(''Scan Date'', PStr now),
              (''Total Hosts'', PInt (int (length hs))),
              (''Total Vulnerabilities'', PInt (int (length vs))),
              (''Total Compliance Checks'', PInt (int (length cs)))]]) ''Home'' 0) 3 0
            (PStr ''Host Summary'')"
  from create_dashboard_chart_Inr[of vs ?ws hs] assms obtain a b c d e chart where
    home: "home = ?ws\<lparr> ws_cells := ws_cells ?ws @
              [((19, 0), PStr ''Severity''), ((19, 1), PStr ''Count''),
               ((20, 0), PStr ''Critical''), ((20, 1), PInt a),
               ((21, 0), PStr ''High''), ((21, 1), PInt b),
               ((22, 0), PStr ''Medium''), ((22, 1), PInt c),
               ((23, 0), PStr ''Low''), ((23, 1), PInt d),
               ((24, 0), PStr ''Info''), ((24, 1), PInt e)],
            ws_charts := ws_charts ?ws @ [(''D2'', chart)] \<rparr>"
    by (auto simp: home_sheet_def Let_def)
  show "ws_name home = ''Home''" by (simp add: home ws_write_def)
  show "row_cells 0 home =
      [(0, PStr ''Scan Date''), (1, PStr ''Total Hosts''), (2, PStr ''Total Vulnerabilities''),
       (3, PStr ''Total Compliance Checks'')]"
    by (simp add: home row_cells_def ws_write_def to_excel_def table_cells_def DataFrame_def)
  show "row_cells 1 home =
      [(0, PStr now), (1, PInt (int (length hs))), (2, PInt (int (length vs))),
       (3, PInt (int (length cs)))]"
    by (simp add: home row_cells_def ws_write_def to_excel_def table_cells_def DataFrame_def)
qed


section \<open>The claims\<close>

text \<open>
  C1. A finding item that is not a compliance item and whose severity parses as an
  integer outside 0..4 should keep that integer, get the label \<open>Unknown\<close>, and leave the run
  alive. The program does not do this: the label lookup of line 121 has the \<open>Unknown\<close>
  default, but line 100 before it indexes \<open>host_vuln_counts\<close>, which has the keys 0..4
  only, so the item raises \<open>KeyError\<close> and the run ends. At severity \<open>"5"\<close>: the text parses
  to 5, its label would be \<open>Unknown\<close>, and the extractor returns no records.
\<close>

theorem C1_unknown_severity_aborts:
  "py_int ''5'' = Some 5 \<and> severity_label 5 = ''Unknown'' \<and>
   parse_nessus_xml (\<lambda>_. Document doc_unknown_severity) ''scan.nessus''
     = Inl (KeyError (PInt 5))"
  by code_simp

text \<open>
  C3. Every finding item should go to exactly one of the two streams, the compliance
  items to the ComplianceRecord collection. The program does not reach that collection:
  building the compliance dict calls \<open>findtext\<close> with the prefixed name
  \<open>cm:compliance-audit-file\<close> and no namespace mapping, which raises \<open>SyntaxError\<close>, so a
  document with a compliance item ends the run and yields no collection at all.
\<close>

theorem C3_compliance_item_aborts:
  "parse_nessus_xml (\<lambda>_. Document doc_compliance) ''scan.nessus'' = Inl (SyntaxError ''cm'')"
  by code_simp



text \<open>
  C4. Whenever the extractor returns, its findings are the concatenation of one segment
  per host record, in order; the segment of a host holds the entries extracted from the
  finding items of that host element that are not compliance items. For every host record
  the five severity counts add up to \<open>Total\<close>, and \<open>Total\<close> is the length of its segment.
\<close>

theorem C4_severity_counts_sum_to_total:
  assumes "files fp = Document root"
    and "find_child ''Report'' root = Some report"
    and "parse_nessus_xml files fp = Inr (hs, vs, cs)"
  shows "\<exists>segs. length segs = length hs \<and> vs = concat segs \<and>
     list_all2 (\<lambda>rh (h, seg). host_extracted fp rh h seg \<and>
         h_Critical h + h_High h + h_Medium h + h_Low h + h_Info h = h_Total h \<and>
         h_Total h = int (length seg))
       (findall ''ReportHost'' report) (zip hs segs)"
proof -
  from parse_nessus_xml_Inr[OF assms(3,1,2)] obtain hsegs where
    hs: "hs = map fst hsegs" and vs: "vs = concat (map snd hsegs)"
    and all: "list_all2 (\<lambda>rh (h, seg). host_extracted fp rh h seg \<and>
        h_Critical h + h_High h + h_Medium h + h_Low h + h_Info h = h_Total h \<and>
        h_Total h = int (length seg) \<and>
        (\<forall>item \<in> set (findall ''ReportItem'' rh). \<not> is_compliance item))
       (findall ''ReportHost'' report) hsegs"
    by blast
  have z: "zip hs (map snd hsegs) = hsegs" by (simp add: hs zip_map_fst_snd)
  have "list_all2 (\<lambda>rh (h, seg). host_extracted fp rh h seg \<and>
         h_Critical h + h_High h + h_Medium h + h_Low h + h_Info h = h_Total h \<and>
         h_Total h = int (length seg))
       (findall ''ReportHost'' report) (zip hs (map snd hsegs))"
    unfolding z using all by (rule list_all2_mono) auto
  then show ?thesis using hs vs by (intro exI[of _ "map snd hsegs"]) simp
qed

text \<open>On the example document: totals 2 and 1 for segments of two findings and one.\<close>

theorem C4_severity_counts_witness:
  "parse_nessus_xml (\<lambda>_. Document doc_example) ''scan.nessus''
     = Inr (example_hosts, concat example_findings, []) \<and>
   (\<exists>segs. length segs = length example_hosts \<and> concat example_findings = concat segs \<and>
     list_all2 (\<lambda>rh (h, seg). host_extracted ''scan.nessus'' rh h seg \<and>
         h_Critical h + h_High h + h_Medium h + h_Low h + h_Info h = h_Total h \<and>
         h_Total h = int (length seg))
       [example_host_a, example_host_b] (zip example_hosts segs))"
  using C4_severity_counts_sum_to_total[OF refl example_tree(1) example_parse]
    example_parse example_tree(2) by simp

text \<open>
  C8. Whenever the extractor returns, the record of the \<open>i\<close>-th host element has the
  sentinel \<open>N/A\<close>, and not \<open>None\<close>, in each of the fields IP, FQDN and operating system whose
  property is absent from the host; a host without a \<open>HostProperties\<close> element has all
  three absent.
\<close>

theorem C8_absent_identity_fields_are_NA:
  assumes "files fp = Document root"
    and "find_child ''Report'' root = Some report"
    and "parse_nessus_xml files fp = Inr (hs, vs, cs)"
    and "i < length (findall ''ReportHost'' report)"
  shows "i < length hs \<and>
    (prop_absent ''host-ip'' (findall ''ReportHost'' report ! i)
       \<longrightarrow> h_IP_Address (hs ! i) = Some ''N/A'') \<and>
    (prop_absent ''host-fqdn'' (findall ''ReportHost'' report ! i)
       \<longrightarrow> h_FQDN (hs ! i) = Some ''N/A'') \<and>
    (prop_absent ''operating-system'' (findall ''ReportHost'' report ! i)
       \<longrightarrow> h_Operating_System (hs ! i) = Some ''N/A'')"
proof -
  let ?hosts = "findall ''ReportHost'' report"
  from parse_nessus_xml_Inr[OF assms(3,1,2)] obtain hsegs where
    hs: "hs = map fst hsegs"
    and all: "list_all2 (\<lambda>rh (h, seg). host_extracted fp rh h seg \<and>
        h_Critical h + h_High h + h_Medium h + h_Low h + h_Info h = h_Total h \<and>
        h_Total h = int (length seg) \<and>
        (\<forall>item \<in> set (findall ''ReportItem'' rh). \<not> is_compliance item)) ?hosts hsegs"
    by blast
  have len: "length hsegs = length ?hosts" using all by (simp add: list_all2_lengthD)
  with assms(4) have i: "i < length hsegs" by simp
  obtain h seg where p: "hsegs ! i = (h, seg)" by (cases "hsegs ! i")
  from list_all2_nthD[OF all assms(4)] p have ext: "host_extracted fp (?hosts ! i) h seg"
    by simp
  have hi: "hs ! i = h" using hs i p by simp
  from ext have "h_IP_Address h = host_ip (?hosts ! i)" "h_FQDN h = host_fqdn (?hosts ! i)"
    "h_Operating_System h = host_os (?hosts ! i)"
    by (simp_all add: host_extracted_def)
  then show ?thesis
    using hi i hs by (simp add: host_ip_def host_fqdn_def host_os_def host_props_absent)
qed

text \<open>The second host of the example document has no \<open>HostProperties\<close> element.\<close>

theorem C8_absent_identity_fields_witness:
  "prop_absent ''host-ip'' example_host_b \<and> h_IP_Address (example_hosts ! 1) = Some ''N/A'' \<and>
   prop_absent ''host-fqdn'' example_host_b \<and> h_FQDN (example_hosts ! 1) = Some ''N/A'' \<and>
   prop_absent ''operating-system'' example_host_b \<and>
   h_Operating_System (example_hosts ! 1) = Some ''N/A''"
proof -
  have a: "prop_absent ''host-ip'' example_host_b" "prop_absent ''host-fqdn'' example_host_b"
    "prop_absent ''operating-system'' example_host_b"
    by code_simp+
  have i: "1 < length (findall ''ReportHost'' example_report)" by (simp add: example_tree(2))
  from C8_absent_identity_fields_are_NA[OF refl example_tree(1) example_parse i] a
  show ?thesis by (simp add: example_tree(2))
qed



text \<open>
  C6. In every workbook that \<open>write_excel\<close> writes, the sheet of a severity level is
  present exactly when some finding has that severity, so a level with no finding has no
  sheet; and the Compliance sheet is present exactly when there is a compliance record.
\<close>

theorem C6_sheet_only_for_present_severity:
  assumes "write_excel now hs vs cs = Inr workbook"
  shows "(\<forall>sev label. map_of SEVERITY_MAP sev = Some label \<longrightarrow>
            (label \<in> set (map ws_name workbook) \<longleftrightarrow> (\<exists>v \<in> set vs. v_Severity v = sev))) \<and>
         (''Compliance'' \<in> set (map ws_name workbook) \<longleftrightarrow> cs \<noteq> [])"
proof -
  note names = workbook_names[OF assms]
  have sev: "label \<in> set (map ws_name workbook) \<longleftrightarrow> (\<exists>v \<in> set vs. v_Severity v = sev)"
    if "map_of SEVERITY_MAP sev = Some label" for sev label
    unfolding names
    using label_in_names(1)[OF that, of "\<lambda>sev. \<exists>v \<in> set vs. v_Severity v = sev"]
      label_in_names(2-4)[OF that]
    by (simp del: filter.simps map_map)
  have "''Compliance'' \<notin> set (map severity_label (filter P [4, 3, 2, 1, 0]))" for P
    by (auto simp: severity_label_def SEVERITY_MAP_def)
  then have comp: "''Compliance'' \<in> set (map ws_name workbook) \<longleftrightarrow> cs \<noteq> []"
    unfolding names by (simp del: filter.simps)
  from sev comp show ?thesis by blast
qed

text \<open>
  The findings of the example document have the severities 4, 2 and 0: no High and no Low
  sheet, and without compliance records no Compliance sheet.
\<close>

theorem C6_sheet_omission_witness:
  "\<exists>workbook.
     write_excel ''2024-01-01 12:00:00'' example_hosts (concat example_findings) [] = Inr workbook \<and>
     ''High'' \<notin> set (map ws_name workbook) \<and> ''Low'' \<notin> set (map ws_name workbook) \<and>
     ''Critical'' \<in> set (map ws_name workbook) \<and>
     ''Compliance'' \<notin> set (map ws_name workbook)"
proof -
  from write_excel_Inr[of "''2024-01-01 12:00:00''" example_hosts "concat example_findings" "[]"]
  obtain workbook where
    wb: "write_excel ''2024-01-01 12:00:00'' example_hosts (concat example_findings) [] = Inr workbook"
    by blast
  have m: "map_of SEVERITY_MAP 3 = Some ''High''" "map_of SEVERITY_MAP 1 = Some ''Low''"
    "map_of SEVERITY_MAP 4 = Some ''Critical''"
    by (simp_all add: SEVERITY_MAP_def)
  have s: "set (map v_Severity (concat example_findings)) = {4, 2, 0}"
    by (simp add: example_severities)
  have ex: "(\<exists>v \<in> set (concat example_findings). v_Severity v = sev) \<longleftrightarrow> sev \<in> {4, 2, 0}" for sev
    using s by (metis (no_types, lifting) image_iff list.set_map)
  from C6_sheet_only_for_present_severity[OF wb] m ex
  have "''High'' \<notin> set (map ws_name workbook)" "''Low'' \<notin> set (map ws_name workbook)"
    "''Critical'' \<in> set (map ws_name workbook)" "''Compliance'' \<notin> set (map ws_name workbook)"
    by simp_all
  with wb show ?thesis by blast
qed



text \<open>
  C10. For a document whose report has no \<open>ReportHost\<close> child the run writes a workbook
  with the Home sheet alone: there is no Host Summary sheet (nor any other), and the Home
  sheet has its header row and its value row, with Total Hosts equal to 0.
\<close>

theorem C10_no_hosts_no_host_summary:
  assumes "files (arg_file a) = Document root"
    and "find_child ''Report'' root = Some report"
    and "findall ''ReportHost'' report = []"
  shows "\<exists>output_file home.
     main files timestamp now a = Inr (output_file, [home]) \<and>
     ''Host Summary'' \<notin> set (map ws_name [home]) \<and> ws_name home = ''Home'' \<and>
     row_cells 0 home =
       [(0, PStr ''Scan Date''), (1, PStr ''Total Hosts''), (2, PStr ''Total Vulnerabilities''),
        (3, PStr ''Total Compliance Checks'')] \<and>
     row_cells 1 home = [(0, PStr now), (1, PInt 0), (2, PInt 0), (3, PInt 0)]"
proof -
  have parse: "parse_nessus_xml files (arg_file a) = Inr ([], [], [])"
    using assms by (simp add: parse_nessus_xml_def)
  from home_sheet_Inr[of now "[]" "[]" "[]"] obtain home where
    home: "home_sheet now [] [] [] = Inr home" by blast
  have wb: "write_excel now [] [] [] = Inr [home]"
    using home
    by (simp add: write_excel_def host_summary_sheet_def vulnerability_sheets_def
        compliance_sheet_def)
  from home_sheet_rows[OF home] parse wb show ?thesis
    by (simp add: main_def Let_def)
qed

text \<open>A report without hosts, written to \<open>report.xlsx\<close>.\<close>

theorem C10_no_hosts_witness:
  "\<exists>home.
     main (\<lambda>_. Document doc_no_hosts) ''20240101120000'' ''2024-01-01 12:00:00''
       \<lparr> arg_file = ''scan.nessus'', arg_output = Some ''report.xlsx'' \<rparr>
       = Inr (''report.xlsx'', [home]) \<and>
     ws_name home = ''Home'' \<and>
     row_cells 1 home = [(0, PStr ''2024-01-01 12:00:00''), (1, PInt 0), (2, PInt 0), (3, PInt 0)]"
proof -
  let ?a = "\<lparr> arg_file = ''scan.nessus'', arg_output = Some ''report.xlsx'' \<rparr>"
  let ?report = "Element ''Report'' [(''name'', ''empty scan'')] None []"
  have f: "(\<lambda>_. Document doc_no_hosts) (arg_file ?a) = Document doc_no_hosts" by simp
  have r: "find_child ''Report'' doc_no_hosts = Some ?report"
    by (simp add: doc_no_hosts_def find_child_def)
  have h: "findall ''ReportHost'' ?report = []" by (simp add: findall_def)
  have "\<exists>output_file home.
     main (\<lambda>_. Document doc_no_hosts) ''20240101120000'' ''2024-01-01 12:00:00'' ?a
       = Inr (output_file, [home]) \<and>
     ''Host Summary'' \<notin> set (map ws_name [home]) \<and> ws_name home = ''Home'' \<and>
     row_cells 0 home =
       [(0, PStr ''Scan Date''), (1, PStr ''Total Hosts''), (2, PStr ''Total Vulnerabilities''),
        (3, PStr ''Total Compliance Checks'')] \<and>
     row_cells 1 home = [(0, PStr ''2024-01-01 12:00:00''), (1, PInt 0), (2, PInt 0), (3, PInt 0)]"
    using f r h by (rule C10_no_hosts_no_host_summary)
  then obtain output_file home where
    m: "main (\<lambda>_. Document doc_no_hosts) ''20240101120000'' ''2024-01-01 12:00:00'' ?a
       = Inr (output_file, [home])"
    and rest: "ws_name home = ''Home''"
      "row_cells 1 home = [(0, PStr ''2024-01-01 12:00:00''), (1, PInt 0), (2, PInt 0), (3, PInt 0)]"
    by blast
  have "output_file = ''report.xlsx''"
    using m by (auto simp: main_def Let_def bind_result_Inr_iff)
  with m rest show ?thesis by blast
qed

end
